theory Spec2Isabelle
  imports Complex_Main "HOL-Library.Word"
begin

section \<open>JavaScript strings\<close>

text \<open>
  A JavaScript string is a sequence of 16-bit code units. String literals of the source
  are ASCII; \<open>js\<close> turns an Isabelle string literal into code units.
\<close>

type_synonym code_unit = "16 word"
type_synonym jsstring = "code_unit list"

definition js :: "string \<Rightarrow> jsstring" where
  "js s = map (\<lambda>c. of_nat (of_char c)) s"

text \<open>\<^verbatim>\<open>String.prototype.trim\<close> strips WhiteSpace and LineTerminator code units.\<close>

definition js_is_whitespace :: "code_unit \<Rightarrow> bool" where
  "js_is_whitespace c \<longleftrightarrow>
     c = 0x09 \<or> c = 0x0A \<or> c = 0x0B \<or> c = 0x0C \<or> c = 0x0D \<or> c = 0x20 \<or> c = 0xA0 \<or>
     c = 0x1680 \<or> (0x2000 \<le> c \<and> c \<le> 0x200A) \<or> c = 0x2028 \<or> c = 0x2029 \<or>
     c = 0x202F \<or> c = 0x205F \<or> c = 0x3000 \<or> c = 0xFEFF"

definition js_trim :: "jsstring \<Rightarrow> jsstring" where
  "js_trim s = rev (dropWhile js_is_whitespace (rev (dropWhile js_is_whitespace s)))"

text \<open>
  \<^verbatim>\<open>s.split(sep)\<close> for a non-empty separator: the pieces between the
  non-overlapping occurrences of \<open>sep\<close>, found from left to right.
\<close>

fun split_from :: "jsstring \<Rightarrow> jsstring \<Rightarrow> jsstring \<Rightarrow> jsstring list" where
  "split_from sep cur [] = [rev cur]"
| "split_from sep cur (c # cs) =
     (if sep \<noteq> [] \<and> take (length sep) (c # cs) = sep
      then rev cur # split_from sep [] (drop (length sep) (c # cs))
      else split_from sep (c # cur) cs)"

definition js_split :: "jsstring \<Rightarrow> jsstring \<Rightarrow> jsstring list" where
  "js_split sep s = split_from sep [] s"

section \<open>JSON values, \<^verbatim>\<open>JSON.stringify\<close> and \<^verbatim>\<open>JSON.parse\<close>\<close>

text \<open>
  The values \<^verbatim>\<open>JSON.parse\<close> can return. A number is kept as its lexeme (no claim
  depends on its numeric value); an object keeps its members in textual order.
\<close>

datatype json =
    JNull
  | JBool bool
  | JNumber jsstring
  | JString jsstring
  | JArray "json list"
  | JObject "(jsstring \<times> json) list"

subsection \<open>Serialisation\<close>

definition hex_digit :: "nat \<Rightarrow> code_unit" where
  "hex_digit v = (if v < 10 then 0x30 + of_nat v else 0x57 + of_nat v)"

definition unicode_escape :: "code_unit \<Rightarrow> jsstring" where
  "unicode_escape c =
     [0x5C, 0x75,
      hex_digit (unat c div 4096), hex_digit (unat c div 256 mod 16),
      hex_digit (unat c div 16 mod 16), hex_digit (unat c mod 16)]"

definition is_lead_surrogate :: "code_unit \<Rightarrow> bool" where
  "is_lead_surrogate c \<longleftrightarrow> 0xD800 \<le> c \<and> c \<le> 0xDBFF"

definition is_trail_surrogate :: "code_unit \<Rightarrow> bool" where
  "is_trail_surrogate c \<longleftrightarrow> 0xDC00 \<le> c \<and> c \<le> 0xDFFF"

text \<open>One code unit that is not part of a surrogate pair, as QuoteJSONString writes it.\<close>

definition quote_unit :: "code_unit \<Rightarrow> jsstring" where
  "quote_unit c =
     (if c = 0x08 then [0x5C, 0x62]
      else if c = 0x09 then [0x5C, 0x74]
      else if c = 0x0A then [0x5C, 0x6E]
      else if c = 0x0C then [0x5C, 0x66]
      else if c = 0x0D then [0x5C, 0x72]
      else if c = 0x22 then [0x5C, 0x22]
      else if c = 0x5C then [0x5C, 0x5C]
      else if c < 0x20 \<or> is_lead_surrogate c \<or> is_trail_surrogate c then unicode_escape c
      else [c])"

fun quote_body :: "jsstring \<Rightarrow> jsstring" where
  "quote_body [] = []"
| "quote_body [c] = quote_unit c"
| "quote_body (c # d # ds) =
     (if is_lead_surrogate c \<and> is_trail_surrogate d then c # d # quote_body ds
      else quote_unit c @ quote_body (d # ds))"

definition quote_json_string :: "jsstring \<Rightarrow> jsstring" where
  "quote_json_string s = 0x22 # quote_body s @ [0x22]"

fun js_join :: "jsstring \<Rightarrow> jsstring list \<Rightarrow> jsstring" where
  "js_join sep [] = []"
| "js_join sep [x] = x"
| "js_join sep (x # y # ys) = x @ sep @ js_join sep (y # ys)"

definition stringify_member :: "jsstring \<times> jsstring \<Rightarrow> jsstring" where
  "stringify_member kv = quote_json_string (fst kv) @ 0x3A # snd kv"

primrec json_stringify :: "json \<Rightarrow> jsstring" where
  "json_stringify JNull = js ''null''"
| "json_stringify (JBool b) = (if b then js ''true'' else js ''false'')"
| "json_stringify (JNumber lexeme) = lexeme"
| "json_stringify (JString s) = quote_json_string s"
| "json_stringify (JArray vs) = 0x5B # js_join [0x2C] (map json_stringify vs) @ [0x5D]"
| "json_stringify (JObject kvs) =
     0x7B # js_join [0x2C] (map stringify_member (map (map_prod id json_stringify) kvs)) @ [0x7D]"

subsection \<open>Parsing\<close>

definition json_ws :: "code_unit \<Rightarrow> bool" where
  "json_ws c \<longleftrightarrow> c = 0x20 \<or> c = 0x09 \<or> c = 0x0A \<or> c = 0x0D"

definition skip_ws :: "jsstring \<Rightarrow> jsstring" where
  "skip_ws s = dropWhile json_ws s"

definition hex_val :: "code_unit \<Rightarrow> nat option" where
  "hex_val c =
     (if 0x30 \<le> c \<and> c \<le> 0x39 then Some (unat c - 48)
      else if 0x61 \<le> c \<and> c \<le> 0x66 then Some (unat c - 87)
      else if 0x41 \<le> c \<and> c \<le> 0x46 then Some (unat c - 55)
      else None)"

definition hex4 :: "code_unit \<Rightarrow> code_unit \<Rightarrow> code_unit \<Rightarrow> code_unit \<Rightarrow> code_unit option" where
  "hex4 a b c d =
     (case (hex_val a, hex_val b, hex_val c, hex_val d) of
        (Some p, Some q, Some r, Some s) \<Rightarrow> Some (of_nat (((p * 16 + q) * 16 + r) * 16 + s))
      | _ \<Rightarrow> None)"

definition simple_escape :: "code_unit \<Rightarrow> code_unit option" where
  "simple_escape e =
     (if e = 0x22 then Some 0x22
      else if e = 0x5C then Some 0x5C
      else if e = 0x2F then Some 0x2F
      else if e = 0x62 then Some 0x08
      else if e = 0x66 then Some 0x0C
      else if e = 0x6E then Some 0x0A
      else if e = 0x72 then Some 0x0D
      else if e = 0x74 then Some 0x09
      else None)"

definition cons_result :: "code_unit \<Rightarrow> (jsstring \<times> jsstring) option \<Rightarrow> (jsstring \<times> jsstring) option" where
  "cons_result c r = map_option (\<lambda>(s, rest). (c # s, rest)) r"

text \<open>The characters of a string literal after its opening quote, up to the closing one.\<close>

fun parse_string_body :: "jsstring \<Rightarrow> (jsstring \<times> jsstring) option" where
  "parse_string_body [] = None"
| "parse_string_body (c # cs) =
     (if c = 0x22 then Some ([], cs)
      else if c = 0x5C then
        (case cs of
           [] \<Rightarrow> None
         | e # es \<Rightarrow>
             if e = 0x75 then
               (case es of
                  h1 # h2 # h3 # h4 # r \<Rightarrow>
                    (case hex4 h1 h2 h3 h4 of
                       Some v \<Rightarrow> cons_result v (parse_string_body r)
                     | None \<Rightarrow> None)
                | _ \<Rightarrow> None)
             else
               (case simple_escape e of
                  Some v \<Rightarrow> cons_result v (parse_string_body es)
                | None \<Rightarrow> None))
      else if c < 0x20 then None
      else cons_result c (parse_string_body cs))"

definition is_digit :: "code_unit \<Rightarrow> bool" where
  "is_digit c \<longleftrightarrow> 0x30 \<le> c \<and> c \<le> 0x39"

text \<open>Number grammar: \<^verbatim>\<open>-? (0 | [1-9][0-9]*) (\.[0-9]+)? ([eE][+-]?[0-9]+)?\<close>; the result
  is the length of the longest prefix that is a number, if there is one.\<close>

definition digits_len :: "jsstring \<Rightarrow> nat" where
  "digits_len s = length (takeWhile is_digit s)"

definition int_len :: "jsstring \<Rightarrow> nat option" where
  "int_len s =
     (case s of
        [] \<Rightarrow> None
      | c # cs \<Rightarrow>
          if c = 0x30 then Some 1
          else if is_digit c then Some (1 + digits_len cs)
          else None)"

definition frac_len :: "jsstring \<Rightarrow> nat option" where
  "frac_len s =
     (case s of
        c # cs \<Rightarrow>
          if c = 0x2E then (if digits_len cs = 0 then None else Some (1 + digits_len cs))
          else Some 0
      | [] \<Rightarrow> Some 0)"

definition exp_len :: "jsstring \<Rightarrow> nat option" where
  "exp_len s =
     (case s of
        c # cs \<Rightarrow>
          if c = 0x65 \<or> c = 0x45 then
            (let sign = (case cs of d # ds \<Rightarrow> if d = 0x2B \<or> d = 0x2D then 1 else 0 | [] \<Rightarrow> 0);
                 n = digits_len (drop sign cs)
             in if n = 0 then None else Some (1 + sign + n))
          else Some 0
      | [] \<Rightarrow> Some 0)"

definition number_len :: "jsstring \<Rightarrow> nat option" where
  "number_len s =
     (let m = (case s of c # cs \<Rightarrow> if c = 0x2D then 1 else 0 | [] \<Rightarrow> 0) in
      case int_len (drop m s) of
        None \<Rightarrow> None
      | Some i \<Rightarrow>
          (case frac_len (drop (m + i) s) of
             None \<Rightarrow> None
           | Some f \<Rightarrow>
               (case exp_len (drop (m + i + f) s) of
                  None \<Rightarrow> None
                | Some e \<Rightarrow> Some (m + i + f + e))))"

datatype 'a presult = Ok 'a jsstring | SyntaxError | OutOfFuel

text \<open>A value that does not start with a brace or a bracket.\<close>

definition parse_scalar :: "jsstring \<Rightarrow> json presult" where
  "parse_scalar s =
     (case s of
        [] \<Rightarrow> SyntaxError
      | c # cs \<Rightarrow>
          if c = 0x22 then
            (case parse_string_body cs of
               Some (str, r) \<Rightarrow> Ok (JString str) r
             | None \<Rightarrow> SyntaxError)
          else if take 4 s = js ''true'' then Ok (JBool True) (drop 4 s)
          else if take 5 s = js ''false'' then Ok (JBool False) (drop 5 s)
          else if take 4 s = js ''null'' then Ok JNull (drop 4 s)
          else
            (case number_len s of
               Some n \<Rightarrow> Ok (JNumber (take n s)) (drop n s)
             | None \<Rightarrow> SyntaxError))"

text \<open>
  The recursive descent. Every recursive call gets one unit of fuel less and an input at
  least one code unit shorter, so fuel above the length of the text is never used up
  (lemma \<open>parse_value_fuel\<close>).
\<close>

fun parse_value :: "nat \<Rightarrow> jsstring \<Rightarrow> json presult"
  and parse_elements :: "nat \<Rightarrow> jsstring \<Rightarrow> (json list) presult"
  and parse_members :: "nat \<Rightarrow> jsstring \<Rightarrow> ((jsstring \<times> json) list) presult"
where
  "parse_value 0 s = OutOfFuel"
| "parse_value (Suc n) s =
     (case skip_ws s of
        [] \<Rightarrow> SyntaxError
      | c # cs \<Rightarrow>
          if c = 0x5B then
            (case skip_ws cs of
               [] \<Rightarrow> SyntaxError
             | d # ds \<Rightarrow>
                 if d = 0x5D then Ok (JArray []) ds
                 else
                   (case parse_value n (d # ds) of
                      Ok v r \<Rightarrow>
                        (case parse_elements n r of
                           Ok vs r' \<Rightarrow> Ok (JArray (v # vs)) r'
                         | SyntaxError \<Rightarrow> SyntaxError
                         | OutOfFuel \<Rightarrow> OutOfFuel)
                    | SyntaxError \<Rightarrow> SyntaxError
                    | OutOfFuel \<Rightarrow> OutOfFuel))
          else if c = 0x7B then
            (case skip_ws cs of
               [] \<Rightarrow> SyntaxError
             | d # ds \<Rightarrow>
                 if d = 0x7D then Ok (JObject []) ds
                 else
                   (case parse_members n (d # ds) of
                      Ok kvs r \<Rightarrow> Ok (JObject kvs) r
                    | SyntaxError \<Rightarrow> SyntaxError
                    | OutOfFuel \<Rightarrow> OutOfFuel))
          else parse_scalar (c # cs))"
| "parse_elements 0 s = OutOfFuel"
| "parse_elements (Suc n) s =
     (case skip_ws s of
        [] \<Rightarrow> SyntaxError
      | c # cs \<Rightarrow>
          if c = 0x5D then Ok [] cs
          else if c = 0x2C then
            (case parse_value n cs of
               Ok v r \<Rightarrow>
                 (case parse_elements n r of
                    Ok vs r' \<Rightarrow> Ok (v # vs) r'
                  | SyntaxError \<Rightarrow> SyntaxError
                  | OutOfFuel \<Rightarrow> OutOfFuel)
             | SyntaxError \<Rightarrow> SyntaxError
             | OutOfFuel \<Rightarrow> OutOfFuel)
          else SyntaxError)"
| "parse_members 0 s = OutOfFuel"
| "parse_members (Suc n) s =
     (case skip_ws s of
        [] \<Rightarrow> SyntaxError
      | c # cs \<Rightarrow>
          if c = 0x22 then
            (case parse_string_body cs of
               None \<Rightarrow> SyntaxError
             | Some (k, r) \<Rightarrow>
                 (case skip_ws r of
                    [] \<Rightarrow> SyntaxError
                  | d # ds \<Rightarrow>
                      if d = 0x3A then
                        (case parse_value n ds of
                           Ok v r2 \<Rightarrow>
                             (case skip_ws r2 of
                                [] \<Rightarrow> SyntaxError
                              | e # es \<Rightarrow>
                                  if e = 0x7D then Ok [(k, v)] es
                                  else if e = 0x2C then
                                    (case parse_members n es of
                                       Ok kvs r3 \<Rightarrow> Ok ((k, v) # kvs) r3
                                     | SyntaxError \<Rightarrow> SyntaxError
                                     | OutOfFuel \<Rightarrow> OutOfFuel)
                                  else SyntaxError)
                         | SyntaxError \<Rightarrow> SyntaxError
                         | OutOfFuel \<Rightarrow> OutOfFuel)
                      else SyntaxError))
          else SyntaxError)"

text \<open>\<^verbatim>\<open>JSON.parse(text)\<close>: \<open>None\<close> is the SyntaxError it throws.\<close>

definition json_parse :: "jsstring \<Rightarrow> json option" where
  "json_parse s =
     (case parse_value (Suc (length s)) s of
        Ok v r \<Rightarrow> if skip_ws r = [] then Some v else None
      | SyntaxError \<Rightarrow> None
      | OutOfFuel \<Rightarrow> None)"

section \<open>The data model (\<^verbatim>\<open>lib/types.ts\<close>)\<close>

datatype patientStatus =
    BelumDikerjakan
  | IdentifikasiPasien
  | DiskusiDPJP
  | Tindakan
  | KontrolPascaTindakan
  | Selesai

record photo =
  ph_id :: jsstring
  url :: jsstring
  storagePath :: jsstring

record patientEntry =
  pe_id :: jsstring
  pe_namaPasien :: jsstring
  pe_nomorTelp :: jsstring

record patient =
  p_id :: jsstring
  requirement :: jsstring
  status :: patientStatus
  pasienList :: "patientEntry list"
  hasPasien :: bool
  namaPasien :: jsstring
  nomorTelp :: jsstring
  photos :: "photo list"

record subDepartment =
  sd_id :: jsstring
  sd_name :: jsstring
  sd_patients :: "patient list"

text \<open>\<open>subDepartments\<close> is an optional field: \<open>None\<close> is \<^verbatim>\<open>undefined\<close>.\<close>

record department =
  d_id :: jsstring
  d_name :: jsstring
  patients :: "patient list"
  hasSubDepartments :: bool
  subDepartments :: "subDepartment list option"

record appointment =
  a_id :: jsstring
  tanggal :: jsstring
  jam :: jsstring
  kubikel :: jsstring
  rencanaPerawatan :: jsstring
  kasus :: jsstring
  departemen :: jsstring
  a_namaPasien :: jsstring
  a_nomorTelp :: jsstring
  checklist :: bool

text \<open>The fields \<^verbatim>\<open>n\<close>, \<^verbatim>\<open>t\<close>, \<^verbatim>\<open>d\<close>, \<^verbatim>\<open>pid\<close> of \<^verbatim>\<open>WeeklySlotData\<close>.\<close>

record weeklySlotData =
  slot_n :: jsstring
  slot_t :: jsstring
  slot_d :: jsstring
  slot_pid :: jsstring

record weeklySlot =
  w_id :: jsstring
  w_jam :: jsstring
  senin :: jsstring
  selasa :: jsstring
  rabu :: jsstring
  kamis :: jsstring
  jumat :: jsstring
  sabtu :: jsstring
  minggu :: jsstring

subsection \<open>The weekly-slot codec\<close>

text \<open>A \<^verbatim>\<open>WeeklySlotData\<close> object as a JavaScript value, its properties in creation order.\<close>

definition slot_object :: "weeklySlotData \<Rightarrow> json" where
  "slot_object x =
     JObject [(js ''n'', JString (slot_n x)), (js ''t'', JString (slot_t x)),
              (js ''d'', JString (slot_d x)), (js ''pid'', JString (slot_pid x))]"

text \<open>
  What \<^verbatim>\<open>parseSlotValue\<close> returns: the empty string, the break sentinel, or an
  object. The JSON branch returns the parsed value itself, cast to
  \<^verbatim>\<open>WeeklySlotData\<close> without a check, so the object is kept as a JSON value.
\<close>

datatype slotValue = SlotEmpty | SlotIstirahat | SlotObject json

text \<open>\<^verbatim>\<open>parsed && typeof parsed === "object"\<close>: arrays and objects; \<^verbatim>\<open>null\<close> is
  falsy, the other values have another type.\<close>

fun is_object_value :: "json \<Rightarrow> bool" where
  "is_object_value (JArray vs) = True"
| "is_object_value (JObject kvs) = True"
| "is_object_value v = False"

text \<open>\<^verbatim>\<open>key in value\<close> for an object value; an array has no property \<^verbatim>\<open>n\<close>.\<close>

fun js_in :: "jsstring \<Rightarrow> json \<Rightarrow> bool" where
  "js_in k (JObject kvs) = (k \<in> set (map fst kvs))"
| "js_in k v = False"

definition parseSlotValue :: "jsstring \<Rightarrow> slotValue" where
  "parseSlotValue val =
     (if val = [] \<or> js_trim val = [] then SlotEmpty
      else if val = js ''ISTIRAHAT'' then SlotIstirahat
      else
        (case json_parse val of
           Some parsed \<Rightarrow>
             if is_object_value parsed \<and> js_in (js ''n'') parsed then SlotObject parsed
             else SlotEmpty
         | None \<Rightarrow>
             (let parts = js_split (js '' - '') val in
              SlotObject (slot_object
                \<lparr>slot_n = (case parts of p0 # _ \<Rightarrow> if p0 \<noteq> [] then p0 else val | [] \<Rightarrow> val),
                 slot_t = [],
                 slot_d = (case parts of _ # p1 # _ \<Rightarrow> p1 | _ \<Rightarrow> []),
                 slot_pid = []\<rparr>))))"

definition serializeSlotData :: "weeklySlotData \<Rightarrow> jsstring" where
  "serializeSlotData data = json_stringify (slot_object data)"

subsection \<open>Legacy fields\<close>

definition syncLegacyFields :: "patient \<Rightarrow> patient" where
  "syncLegacyFields p =
     p\<lparr>hasPasien := length (pasienList p) > 0,
       namaPasien := (case pasienList p of first # _ \<Rightarrow> pe_namaPasien first | [] \<Rightarrow> []),
       nomorTelp := (case pasienList p of first # _ \<Rightarrow> pe_nomorTelp first | [] \<Rightarrow> [])\<rparr>"

fun STATUS_WEIGHT :: "patientStatus \<Rightarrow> int" where
  "STATUS_WEIGHT BelumDikerjakan = 0"
| "STATUS_WEIGHT IdentifikasiPasien = 1"
| "STATUS_WEIGHT DiskusiDPJP = 2"
| "STATUS_WEIGHT Tindakan = 3"
| "STATUS_WEIGHT KontrolPascaTindakan = 4"
| "STATUS_WEIGHT Selesai = 5"

section \<open>The persistence layer (\<^verbatim>\<open>lib/supabase-queries.ts\<close>)\<close>

subsection \<open>Rows and responses\<close>

text \<open>
  The rows the service returns. A column the code reads with a fallback
  (\<^verbatim>\<open>!p.sub_department_id\<close>, \<^verbatim>\<open>if (row.pasien_list)\<close>, \<^verbatim>\<open>row.senin || ""\<close>) may be
  \<^verbatim>\<open>null\<close> and is an option; the other columns hold values of their type. The
  \<^verbatim>\<open>sort_order\<close> column only orders the rows, which arrive as lists.
\<close>

record department_row =
  dr_id :: jsstring
  dr_name :: jsstring
  has_sub_departments :: bool

record sub_department_row =
  sr_id :: jsstring
  sr_department_id :: jsstring
  sr_name :: jsstring

record patient_row =
  pr_id :: jsstring
  pr_department_id :: jsstring
  pr_sub_department_id :: "jsstring option"
  pr_requirement :: jsstring
  pr_status :: patientStatus
  has_pasien :: bool
  nama_pasien :: jsstring
  nomor_telp :: jsstring
  pasien_list :: "jsstring option"

record photo_row =
  phr_id :: jsstring
  patient_id :: jsstring
  storage_path :: jsstring
  photo_url :: jsstring

record weekly_slot_row =
  wr_id :: jsstring
  wr_jam :: jsstring
  wr_senin :: "jsstring option"
  wr_selasa :: "jsstring option"
  wr_rabu :: "jsstring option"
  wr_kamis :: "jsstring option"
  wr_jumat :: "jsstring option"
  wr_sabtu :: "jsstring option"
  wr_minggu :: "jsstring option"

text \<open>What a query resolves to: \<^verbatim>\<open>{ data, error }\<close>, each possibly \<^verbatim>\<open>null\<close>.\<close>

record 'row response =
  data :: "'row list option"
  error :: "jsstring option"

text \<open>\<^verbatim>\<open>x || ""\<close> for a nullable string.\<close>

definition or_empty :: "jsstring option \<Rightarrow> jsstring" where
  "or_empty x = (case x of Some s \<Rightarrow> s | None \<Rightarrow> [])"

text \<open>Truthiness of a nullable string: neither \<^verbatim>\<open>null\<close> nor empty.\<close>

definition truthy :: "jsstring option \<Rightarrow> bool" where
  "truthy x = (case x of Some s \<Rightarrow> s \<noteq> [] | None \<Rightarrow> False)"

subsection \<open>Patient entries as JSON\<close>

definition entry_object :: "patientEntry \<Rightarrow> json" where
  "entry_object e =
     JObject [(js ''id'', JString (pe_id e)), (js ''namaPasien'', JString (pe_namaPasien e)),
              (js ''nomorTelp'', JString (pe_nomorTelp e))]"

text \<open>
  The parsed \<^verbatim>\<open>pasien_list\<close> is cast to \<^verbatim>\<open>PatientEntry[]\<close> without a check. The model
  follows the source where the value is an array of objects with the three string fields;
  on any other value the source goes on with a value that is no \<^verbatim>\<open>PatientEntry[]\<close> (or
  throws a TypeError, for \<^verbatim>\<open>null\<close>), and the model stops with \<open>MalformedPasienList\<close>.
\<close>

datatype row_error = MalformedPasienList

definition entry_of_json :: "json \<Rightarrow> patientEntry option" where
  "entry_of_json v =
     (case v of
        JObject kvs \<Rightarrow>
          (case (map_of kvs (js ''id''), map_of kvs (js ''namaPasien''), map_of kvs (js ''nomorTelp'')) of
             (Some (JString i), Some (JString n), Some (JString t)) \<Rightarrow>
               Some \<lparr>pe_id = i, pe_namaPasien = n, pe_nomorTelp = t\<rparr>
           | _ \<Rightarrow> None)
      | _ \<Rightarrow> None)"

fun entries_of_json :: "json list \<Rightarrow> patientEntry list option" where
  "entries_of_json [] = Some []"
| "entries_of_json (v # vs) =
     (case entry_of_json v of
        None \<Rightarrow> None
      | Some e \<Rightarrow> (case entries_of_json vs of None \<Rightarrow> None | Some es \<Rightarrow> Some (e # es)))"

definition parse_pasien_list :: "jsstring option \<Rightarrow> row_error + patientEntry list" where
  "parse_pasien_list col =
     (if truthy col then
        (case json_parse (or_empty col) of
           None \<Rightarrow> Inr []
         | Some (JArray vs) \<Rightarrow>
             (case entries_of_json vs of Some es \<Rightarrow> Inr es | None \<Rightarrow> Inl MalformedPasienList)
         | Some _ \<Rightarrow> Inl MalformedPasienList)
      else Inr [])"

subsection \<open>\<^verbatim>\<open>fetchDepartments\<close>\<close>

definition photosByPatient :: "photo_row list \<Rightarrow> jsstring \<Rightarrow> photo list" where
  "photosByPatient photo_rows pid =
     map (\<lambda>ph. \<lparr>ph_id = phr_id ph, url = photo_url ph, storagePath = storage_path ph\<rparr>)
       (filter (\<lambda>ph. patient_id ph = pid) photo_rows)"

definition toPatient :: "photo_row list \<Rightarrow> patient_row \<Rightarrow> row_error + patient" where
  "toPatient photo_rows row =
     (case parse_pasien_list (pasien_list row) of
        Inl e \<Rightarrow> Inl e
      | Inr parsed \<Rightarrow>
          (let pasienList =
                 (if length parsed = 0 \<and> has_pasien row \<and> nama_pasien row \<noteq> []
                  then [\<lparr>pe_id = js ''pe-'' @ pr_id row, pe_namaPasien = nama_pasien row,
                         pe_nomorTelp = nomor_telp row\<rparr>]
                  else parsed)
           in Inr \<lparr>p_id = pr_id row,
                   requirement = pr_requirement row,
                   status = pr_status row,
                   pasienList = pasienList,
                   hasPasien = length pasienList > 0,
                   namaPasien = (case pasienList of first # _ \<Rightarrow> pe_namaPasien first
                                 | [] \<Rightarrow> nama_pasien row),
                   nomorTelp = (case pasienList of first # _ \<Rightarrow> pe_nomorTelp first
                                | [] \<Rightarrow> nomor_telp row),
                   photos = photosByPatient photo_rows (pr_id row)\<rparr>))"

text \<open>\<^verbatim>\<open>rows.map(f)\<close> where \<open>f\<close> may stop: the first failure ends the whole map.\<close>

fun map_rows :: "('a \<Rightarrow> row_error + 'b) \<Rightarrow> 'a list \<Rightarrow> row_error + 'b list" where
  "map_rows f [] = Inr []"
| "map_rows f (x # xs) =
     (case f x of
        Inl e \<Rightarrow> Inl e
      | Inr y \<Rightarrow> (case map_rows f xs of Inl e \<Rightarrow> Inl e | Inr ys \<Rightarrow> Inr (y # ys)))"

text \<open>\<^verbatim>\<open>data || []\<close> of a secondary query: its error is not looked at.\<close>

definition data_or_empty :: "'row response \<Rightarrow> 'row list" where
  "data_or_empty r = (case data r of Some rows \<Rightarrow> rows | None \<Rightarrow> [])"

definition toSubDepartment ::
  "photo_row list \<Rightarrow> patient_row list \<Rightarrow> sub_department_row \<Rightarrow> row_error + subDepartment" where
  "toSubDepartment photo_rows patient_rows s =
     (case map_rows (toPatient photo_rows)
             (filter (\<lambda>p. pr_sub_department_id p = Some (sr_id s)) patient_rows) of
        Inl e \<Rightarrow> Inl e
      | Inr ps \<Rightarrow> Inr \<lparr>sd_id = sr_id s, sd_name = sr_name s, sd_patients = ps\<rparr>)"

definition toDepartment ::
  "sub_department_row list \<Rightarrow> patient_row list \<Rightarrow> photo_row list \<Rightarrow> department_row
     \<Rightarrow> row_error + department" where
  "toDepartment subs patient_rows photo_rows d =
     (let deptSubs = filter (\<lambda>s. sr_department_id s = dr_id d) subs;
          directPatients =
            filter (\<lambda>p. pr_department_id p = dr_id d \<and> \<not> truthy (pr_sub_department_id p)) patient_rows
      in case map_rows (toPatient photo_rows) directPatients of
           Inl e \<Rightarrow> Inl e
         | Inr ps \<Rightarrow>
             (case map_rows (toSubDepartment photo_rows patient_rows) deptSubs of
                Inl e \<Rightarrow> Inl e
              | Inr sds \<Rightarrow>
                  Inr \<lparr>d_id = dr_id d, d_name = dr_name d, patients = ps,
                        hasSubDepartments = has_sub_departments d,
                        subDepartments = Some sds\<rparr>))"

text \<open>
  The four queries of \<^verbatim>\<open>fetchDepartments\<close> and what each resolved to. When the first one
  reports an error or no data the function returns before the others are issued.
\<close>

definition fetchDepartments ::
  "department_row response \<Rightarrow> sub_department_row response \<Rightarrow> patient_row response
     \<Rightarrow> photo_row response \<Rightarrow> row_error + department list" where
  "fetchDepartments depts subs patient_rows photo_rows =
     (if error depts \<noteq> None \<or> data depts = None then Inr []
      else map_rows (toDepartment (data_or_empty subs) (data_or_empty patient_rows)
                       (data_or_empty photo_rows))
             (data_or_empty depts))"

subsection \<open>\<^verbatim>\<open>fetchAppointments\<close> and \<^verbatim>\<open>fetchWeeklySlots\<close>\<close>

text \<open>An appointment row has the fields of an appointment; \<^verbatim>\<open>jam\<close> is cut to five
  code units (\<^verbatim>\<open>substring(0, 5)\<close>).\<close>

definition fetchAppointments :: "appointment response \<Rightarrow> appointment list" where
  "fetchAppointments r =
     (if error r \<noteq> None \<or> data r = None then []
      else map (\<lambda>row. row\<lparr>jam := take 5 (jam row)\<rparr>) (data_or_empty r))"

definition fetchWeeklySlots :: "weekly_slot_row response \<Rightarrow> weeklySlot list" where
  "fetchWeeklySlots r =
     (if error r \<noteq> None \<or> data r = None then []
      else map (\<lambda>row. \<lparr>w_id = wr_id row, w_jam = wr_jam row,
                        senin = or_empty (wr_senin row), selasa = or_empty (wr_selasa row),
                        rabu = or_empty (wr_rabu row), kamis = or_empty (wr_kamis row),
                        jumat = or_empty (wr_jumat row), sabtu = or_empty (wr_sabtu row),
                        minggu = or_empty (wr_minggu row)\<rparr>)
             (data_or_empty r))"

subsection \<open>Writes\<close>

text \<open>The row \<^verbatim>\<open>upsertPatient\<close> sends: the legacy columns come from the synced patient.\<close>

definition upsertPatient_row :: "patient \<Rightarrow> jsstring \<Rightarrow> jsstring option \<Rightarrow> patient_row" where
  "upsertPatient_row p departmentId subDepartmentId =
     (let synced = syncLegacyFields p in
      \<lparr>pr_id = p_id synced,
       pr_department_id = departmentId,
       pr_sub_department_id = (if truthy subDepartmentId then subDepartmentId else None),
       pr_requirement = requirement synced,
       pr_status = status synced,
       has_pasien = hasPasien synced,
       nama_pasien = namaPasien synced,
       nomor_telp = nomorTelp synced,
       pasien_list = Some (json_stringify (JArray (map entry_object (pasienList synced))))\<rparr>)"

definition upsertDepartment_row :: "department \<Rightarrow> department_row" where
  "upsertDepartment_row dept =
     \<lparr>dr_id = d_id dept, dr_name = d_name dept, has_sub_departments = hasSubDepartments dept\<rparr>"

definition upsertSubDepartment_row :: "subDepartment \<Rightarrow> jsstring \<Rightarrow> sub_department_row" where
  "upsertSubDepartment_row sub departmentId =
     \<lparr>sr_id = sd_id sub, sr_department_id = departmentId, sr_name = sd_name sub\<rparr>"

text \<open>
  The calls the handlers await. \<^verbatim>\<open>upsertPatientSortOrder\<close> and \<^verbatim>\<open>getNextSortOrder\<close> are
  imported by the department card but are not in this version of the query module; they
  are known by their call sites only. The fourth argument the card passes to
  \<^verbatim>\<open>upsertPatient\<close> (the sort order) is not a parameter of the function and is dropped.
\<close>

datatype request =
    UpsertDepartment department_row
  | DeleteDepartment jsstring
  | UpsertSubDepartment sub_department_row
  | UpsertPatient patient_row
  | DeletePatient jsstring
  | UpsertPatientSortOrder jsstring nat
  | GetNextSortOrder jsstring "jsstring option"
  | UpsertAppointment appointment
  | DeleteAppointment jsstring
  | UpsertWeeklySlot weeklySlot
  | StorageUpload jsstring
  | InsertPhotoRow jsstring jsstring
  | StorageRemove jsstring
  | DeletePhotoRow jsstring

section \<open>The optimistic handlers\<close>

subsection \<open>Local state, notifications and awaited calls\<close>

datatype toast = Success jsstring | Error jsstring

text \<open>How an awaited promise settles.\<close>

datatype outcome = Resolved | Rejected

text \<open>\<^verbatim>\<open>Promise.all\<close> rejects when one of its promises rejects.\<close>

definition promise_all :: "outcome list \<Rightarrow> outcome" where
  "promise_all ocs = (if Rejected \<in> set ocs then Rejected else Resolved)"

text \<open>
  The statements of a handler that touch the shared state, notify or await. The setters of
  dialog flags and form fields (\<^verbatim>\<open>setFormOpen\<close>, \<^verbatim>\<open>setSaving\<close>, ...) are left out.
  \<open>Await reqs then catch after\<close> is
  \<^verbatim>\<open>try { await call; then } catch { catch }; after\<close>, where \<open>call\<close> issues the requests
  \<open>reqs\<close> (one, or the batch of a \<^verbatim>\<open>Promise.all\<close>); it is the last statement of its
  list. An \<^verbatim>\<open>await\<close> outside a \<^verbatim>\<open>try\<close> has the catch \<open>[Throw]\<close>: the handler's
  promise rejects and nothing handles it.
\<close>

datatype action =
    SetDepartments "department list"
  | OnUpdateDepartment department
  | SetAppointments "appointment list"
  | SetWeeklySlots "weeklySlot list"
  | Toast toast
  | Throw
  | Await "request list" "action list" "action list" "action list"

record pending =
  awaited :: "request list"
  on_then :: "action list"
  on_catch :: "action list"
  on_after :: "action list"

record ui =
  departments :: "department list"
  appointments :: "appointment list"
  weeklySlots :: "weeklySlot list"
  toasts :: "toast list"
  requests :: "request list"
  inflight :: "pending list"
  unhandled :: nat

definition await_call :: "request list \<Rightarrow> action list \<Rightarrow> action list \<Rightarrow> action list \<Rightarrow> ui \<Rightarrow> ui" where
  "await_call reqs th ca af s =
     s\<lparr>requests := requests s @ reqs,
       inflight := inflight s @ [\<lparr>awaited = reqs, on_then = th, on_catch = ca, on_after = af\<rparr>]\<rparr>"

subsection \<open>The dashboard (\<^verbatim>\<open>components/dashboard.tsx\<close>)\<close>

definition handleUpdateDepartment :: "department \<Rightarrow> ui \<Rightarrow> ui" where
  "handleUpdateDepartment updated s =
     (let snapshot = departments s;
          nxt = map (\<lambda>d. if d_id d = d_id updated then updated else d) snapshot
      in await_call [UpsertDepartment (upsertDepartment_row updated)] []
           [SetDepartments snapshot,
            Toast (Error (js ''Gagal menyimpan departemen. Perubahan dibatalkan.''))] []
           (s\<lparr>departments := nxt\<rparr>))"

definition handleDeleteDepartment :: "jsstring \<Rightarrow> ui \<Rightarrow> ui" where
  "handleDeleteDepartment ident s =
     (let snapshot = departments s;
          nxt = filter (\<lambda>d. d_id d \<noteq> ident) snapshot
      in await_call [DeleteDepartment ident]
           [Toast (Success (js ''Departemen berhasil dihapus''))]
           [SetDepartments snapshot,
            Toast (Error (js ''Gagal menghapus departemen. Perubahan dibatalkan.''))] []
           (s\<lparr>departments := nxt\<rparr>))"

text \<open>\<open>now\<close> is the decimal text of \<^verbatim>\<open>Date.now()\<close>.\<close>

definition handleAddDepartment :: "jsstring \<Rightarrow> bool \<Rightarrow> jsstring \<Rightarrow> ui \<Rightarrow> ui" where
  "handleAddDepartment name hasSub now s =
     (let newDept = \<lparr>d_id = js ''dept-'' @ now, d_name = name, patients = [],
                     hasSubDepartments = hasSub,
                     subDepartments = (if hasSub then Some [] else None)\<rparr>;
          snapshot = departments s;
          nxt = snapshot @ [newDept]
      in await_call [UpsertDepartment (upsertDepartment_row newDept)]
           [Toast (Success (js ''Departemen '' @ [0x22] @ name @ [0x22] @ js '' berhasil ditambahkan''))]
           [SetDepartments snapshot,
            Toast (Error (js ''Gagal menambah departemen. Perubahan dibatalkan.''))] []
           (s\<lparr>departments := nxt\<rparr>))"

subsection \<open>Running a handler and settling a call\<close>

function run_actions :: "action list \<Rightarrow> ui \<Rightarrow> ui" where
  "run_actions [] s = s"
| "run_actions (SetDepartments ds # rest) s = run_actions rest (s\<lparr>departments := ds\<rparr>)"
| "run_actions (OnUpdateDepartment d # rest) s = run_actions rest (handleUpdateDepartment d s)"
| "run_actions (SetAppointments as # rest) s = run_actions rest (s\<lparr>appointments := as\<rparr>)"
| "run_actions (SetWeeklySlots ws # rest) s = run_actions rest (s\<lparr>weeklySlots := ws\<rparr>)"
| "run_actions (Toast t # rest) s = run_actions rest (s\<lparr>toasts := toasts s @ [t]\<rparr>)"
| "run_actions (Throw # rest) s = s\<lparr>unhandled := Suc (unhandled s)\<rparr>"
| "run_actions (Await reqs th ca af # rest) s = await_call reqs th ca af s"
  by pat_completeness auto
termination
  by (relation "measure (\<lambda>(acts, s). length acts)") auto

text \<open>
  The \<open>i\<close>-th call in flight settles: it leaves the list and its continuation runs. A
  \<open>Throw\<close> in the catch block ends the handler, so the statements after the
  \<^verbatim>\<open>try\<close> do not run.
\<close>

definition settle :: "nat \<Rightarrow> outcome \<Rightarrow> ui \<Rightarrow> ui" where
  "settle i oc s =
     (if i < length (inflight s) then
        (let p = inflight s ! i;
             s' = s\<lparr>inflight := take i (inflight s) @ drop (Suc i) (inflight s)\<rparr>
         in case oc of
              Resolved \<Rightarrow> run_actions (on_then p @ on_after p) s'
            | Rejected \<Rightarrow> run_actions (on_catch p @ on_after p) s')
      else s)"

subsection \<open>The department card (\<^verbatim>\<open>components/department-card.tsx\<close>)\<close>

datatype formMode = Add | Edit

text \<open>The \<^verbatim>\<open>department\<close> prop and the state variables of the card that its handlers read.\<close>

record card =
  department :: department
  formMode :: formMode
  editingPatient :: "patient option"
  targetSubDeptId :: "jsstring option"
  pasienListPatient :: "patient option"
  pasienListSubDeptId :: "jsstring option"
  photoPatient :: "patient option"
  photoSubDeptId :: "jsstring option"
  deletingPatientId :: "jsstring option"
  deletingSubDeptId :: "jsstring option"
  newSubDeptName :: jsstring

text \<open>\<^verbatim>\<open>department.subDepartments || []\<close>.\<close>

definition subs_or_empty :: "department \<Rightarrow> subDepartment list" where
  "subs_or_empty dept = (case subDepartments dept of Some sds \<Rightarrow> sds | None \<Rightarrow> [])"

definition allPatients :: "department \<Rightarrow> patient list" where
  "allPatients dept =
     (if hasSubDepartments dept then concat (map sd_patients (subs_or_empty dept))
      else patients dept)"

text \<open>
  \<^verbatim>\<open>{ ...department, subDepartments: department.subDepartments!.map((s) => s.id === id ? { ...s, patients: f(s.patients) } : s) }\<close>;
  the non-null assertion throws a TypeError when the field is \<^verbatim>\<open>undefined\<close>.
\<close>

definition in_subDepartment ::
  "department \<Rightarrow> jsstring \<Rightarrow> (patient list \<Rightarrow> patient list) \<Rightarrow> department option" where
  "in_subDepartment dept ident f =
     (case subDepartments dept of
        None \<Rightarrow> None
      | Some sds \<Rightarrow>
          Some (dept\<lparr>subDepartments :=
            Some (map (\<lambda>s. if sd_id s = ident then s\<lparr>sd_patients := f (sd_patients s)\<rparr> else s) sds)\<rparr>))"

text \<open>
  The shape shared by the handlers: the change is made in the sub-department
  \<open>subDeptId\<close> when the department has sub-departments and an id is given, directly on
  the department otherwise.
\<close>

definition updated_department ::
  "department \<Rightarrow> jsstring option \<Rightarrow> (patient list \<Rightarrow> patient list) \<Rightarrow> department option" where
  "updated_department dept subDeptId f =
     (if truthy subDeptId \<and> hasSubDepartments dept then in_subDepartment dept (or_empty subDeptId) f
      else Some (dept\<lparr>patients := f (patients dept)\<rparr>))"

text \<open>The argument the handler passes on: \<^verbatim>\<open>undefined\<close> unless the first branch was taken.\<close>

definition subDeptId_for_save :: "department \<Rightarrow> jsstring option \<Rightarrow> jsstring option" where
  "subDeptId_for_save dept subDeptId =
     (if truthy subDeptId \<and> hasSubDepartments dept then subDeptId else None)"

definition replace_patient :: "patient \<Rightarrow> patient list \<Rightarrow> patient list" where
  "replace_patient upd ps = map (\<lambda>p. if p_id p = p_id upd then upd else p) ps"

text \<open>\<^verbatim>\<open>handleSavePatientForm\<close>: the requirement form, in add or edit mode.\<close>

definition persist_patient_form ::
  "card \<Rightarrow> department \<Rightarrow> patient \<Rightarrow> jsstring option \<Rightarrow> action list" where
  "persist_patient_form c updated patientToSave subDeptIdForSave =
     [OnUpdateDepartment updated,
      Await [UpsertPatient (upsertPatient_row patientToSave (d_id (department c)) subDeptIdForSave)]
        [Toast (Success (if formMode c = Add then js ''Requirement ditambahkan''
                         else js ''Requirement diperbarui''))]
        [OnUpdateDepartment (department c),
         Toast (Error (js ''Gagal menyimpan. Perubahan dibatalkan.''))]
        []]"

definition handleSavePatientForm_actions ::
  "card \<Rightarrow> jsstring \<Rightarrow> patientStatus \<Rightarrow> jsstring \<Rightarrow> action list" where
  "handleSavePatientForm_actions c req st now =
     (let dept = department c;
          subDeptIdForSave = subDeptId_for_save dept (targetSubDeptId c)
      in if formMode c = Add then
           (let newP = syncLegacyFields
                  \<lparr>p_id = js ''p-'' @ now, requirement = req, status = st, pasienList = [],
                   hasPasien = False, namaPasien = [], nomorTelp = [], photos = []\<rparr>
            in case updated_department dept (targetSubDeptId c) (\<lambda>ps. ps @ [newP]) of
                 None \<Rightarrow> [Throw]
               | Some updated \<Rightarrow>
                   [Await [GetNextSortOrder (d_id dept) subDeptIdForSave]
                      (persist_patient_form c updated newP subDeptIdForSave) [Throw] []])
         else
           (case editingPatient c of
              None \<Rightarrow> []
            | Some ep \<Rightarrow>
                (let upd = syncLegacyFields (ep\<lparr>requirement := req, status := st\<rparr>)
                 in case updated_department dept (targetSubDeptId c) (replace_patient upd) of
                      None \<Rightarrow> [Throw]
                    | Some updated \<Rightarrow> persist_patient_form c updated upd subDeptIdForSave)))"

definition handleSavePatientForm :: "card \<Rightarrow> jsstring \<Rightarrow> patientStatus \<Rightarrow> jsstring \<Rightarrow> ui \<Rightarrow> ui" where
  "handleSavePatientForm c req st now s = run_actions (handleSavePatientForm_actions c req st now) s"

text \<open>\<^verbatim>\<open>handleSavePasienList\<close>: the entry list of one requirement is saved.\<close>

definition handleSavePasienList_actions :: "card \<Rightarrow> patientEntry list \<Rightarrow> action list" where
  "handleSavePasienList_actions c updatedList =
     (case pasienListPatient c of
        None \<Rightarrow> []
      | Some plp \<Rightarrow>
          (let dept = department c;
               updatedPatient = syncLegacyFields (plp\<lparr>pasienList := updatedList\<rparr>)
           in case updated_department dept (pasienListSubDeptId c) (replace_patient updatedPatient) of
                None \<Rightarrow> [Throw]
              | Some updated \<Rightarrow>
                  [OnUpdateDepartment updated,
                   Await [UpsertPatient (upsertPatient_row updatedPatient (d_id dept)
                                           (subDeptId_for_save dept (pasienListSubDeptId c)))]
                     [Toast (Success (js ''Daftar pasien diperbarui''))]
                     [OnUpdateDepartment dept,
                      Toast (Error (js ''Gagal menyimpan pasien. Perubahan dibatalkan.''))]
                     []]))"

definition handleSavePasienList :: "card \<Rightarrow> patientEntry list \<Rightarrow> ui \<Rightarrow> ui" where
  "handleSavePasienList c updatedList s = run_actions (handleSavePasienList_actions c updatedList) s"

text \<open>\<^verbatim>\<open>handleStatusChange\<close>: the sub-department id is passed on as it was given.\<close>

definition handleStatusChange_actions ::
  "card \<Rightarrow> jsstring \<Rightarrow> patientStatus \<Rightarrow> jsstring option \<Rightarrow> action list" where
  "handleStatusChange_actions c patientId st subDeptId =
     (let dept = department c in
      case updated_department dept subDeptId
             (map (\<lambda>p. if p_id p = patientId then p\<lparr>status := st\<rparr> else p)) of
        None \<Rightarrow> [Throw]
      | Some updated \<Rightarrow>
          OnUpdateDepartment updated #
          (case find (\<lambda>p. p_id p = patientId) (allPatients dept) of
             None \<Rightarrow> []
           | Some p \<Rightarrow>
               [Await [UpsertPatient (upsertPatient_row (p\<lparr>status := st\<rparr>) (d_id dept) subDeptId)]
                  []
                  [OnUpdateDepartment dept,
                   Toast (Error (js ''Gagal mengubah status. Perubahan dibatalkan.''))]
                  []]))"

definition handleStatusChange ::
  "card \<Rightarrow> jsstring \<Rightarrow> patientStatus \<Rightarrow> jsstring option \<Rightarrow> ui \<Rightarrow> ui" where
  "handleStatusChange c patientId st subDeptId s =
     run_actions (handleStatusChange_actions c patientId st subDeptId) s"

text \<open>\<^verbatim>\<open>confirmDeletePatient\<close>.\<close>

definition confirmDeletePatient_actions :: "card \<Rightarrow> action list" where
  "confirmDeletePatient_actions c =
     (if \<not> truthy (deletingPatientId c) then []
      else
        (let dept = department c; pid = or_empty (deletingPatientId c) in
         case updated_department dept (deletingSubDeptId c) (filter (\<lambda>p. p_id p \<noteq> pid)) of
           None \<Rightarrow> [Throw]
         | Some updated \<Rightarrow>
             [OnUpdateDepartment updated,
              Await [DeletePatient pid]
                [Toast (Success (js ''Requirement dihapus''))]
                [OnUpdateDepartment dept,
                 Toast (Error (js ''Gagal menghapus. Perubahan dibatalkan.''))]
                []]))"

definition confirmDeletePatient :: "card \<Rightarrow> ui \<Rightarrow> ui" where
  "confirmDeletePatient c s = run_actions (confirmDeletePatient_actions c) s"

text \<open>\<^verbatim>\<open>handleAddSubDept\<close>: the success notification stands after the \<^verbatim>\<open>try\<close>/\<^verbatim>\<open>catch\<close>.\<close>

definition handleAddSubDept_actions :: "card \<Rightarrow> jsstring \<Rightarrow> action list" where
  "handleAddSubDept_actions c now =
     (if js_trim (newSubDeptName c) = [] then []
      else
        (let dept = department c;
             newSub = \<lparr>sd_id = js ''sub-'' @ now, sd_name = js_trim (newSubDeptName c),
                       sd_patients = []\<rparr>;
             updated = dept\<lparr>subDepartments := Some (subs_or_empty dept @ [newSub])\<rparr>
         in [OnUpdateDepartment updated,
             Await [UpsertSubDepartment (upsertSubDepartment_row newSub (d_id dept))]
               []
               [OnUpdateDepartment dept,
                Toast (Error (js ''Gagal menambah sub-departemen. Perubahan dibatalkan.''))]
               [Toast (Success (js ''Sub-departemen '' @ [0x22] @ sd_name newSub @ [0x22]
                                  @ js '' ditambahkan''))]]))"

definition handleAddSubDept :: "card \<Rightarrow> jsstring \<Rightarrow> ui \<Rightarrow> ui" where
  "handleAddSubDept c now s = run_actions (handleAddSubDept_actions c now) s"

text \<open>
  \<^verbatim>\<open>handleReorderPatients\<close>: one position write per patient, \<^verbatim>\<open>idx + 1\<close> for the
  patient at index \<open>idx\<close>, all issued before \<^verbatim>\<open>Promise.all\<close> is awaited.
\<close>

definition position_writes :: "patient list \<Rightarrow> request list" where
  "position_writes newList =
     map (\<lambda>(p, idx). UpsertPatientSortOrder (p_id p) (idx + 1)) (zip newList [0..<length newList])"

definition handleReorderPatients_actions :: "card \<Rightarrow> patient list \<Rightarrow> jsstring option \<Rightarrow> action list" where
  "handleReorderPatients_actions c newList subDeptId =
     (let dept = department c in
      case updated_department dept subDeptId (\<lambda>ps. newList) of
        None \<Rightarrow> [Throw]
      | Some updated \<Rightarrow>
          [OnUpdateDepartment updated,
           Await (position_writes newList)
             []
             [OnUpdateDepartment dept, Toast (Error (js ''Gagal menyimpan urutan.''))]
             []])"

definition handleReorderPatients :: "card \<Rightarrow> patient list \<Rightarrow> jsstring option \<Rightarrow> ui \<Rightarrow> ui" where
  "handleReorderPatients c newList subDeptId s =
     run_actions (handleReorderPatients_actions c newList subDeptId) s"

subsection \<open>Drag and drop (\<^verbatim>\<open>PatientTable\<close>)\<close>

text \<open>\<^verbatim>\<open>arrayMove\<close> of the sortable library, for indices inside the array: the element at
  \<open>from\<close> is taken out and put in at \<open>to\<close>.\<close>

definition arrayMove :: "'a list \<Rightarrow> nat \<Rightarrow> nat \<Rightarrow> 'a list" where
  "arrayMove xs from to =
     (let rest = take from xs @ drop (Suc from) xs
      in take to rest @ [xs ! from] @ drop to rest)"

text \<open>\<^verbatim>\<open>findIndex\<close>: \<open>None\<close> is \<^verbatim>\<open>-1\<close>.\<close>

fun findIndex :: "('a \<Rightarrow> bool) \<Rightarrow> 'a list \<Rightarrow> nat option" where
  "findIndex P [] = None"
| "findIndex P (x # xs) = (if P x then Some 0 else map_option Suc (findIndex P xs))"

text \<open>\<^verbatim>\<open>handleDragEnd\<close>: the list handed to \<^verbatim>\<open>onReorder\<close>, if it is called. \<open>over\<close> is
  \<open>None\<close> when the row was dropped outside the list.\<close>

definition handleDragEnd :: "patient list \<Rightarrow> jsstring \<Rightarrow> jsstring option \<Rightarrow> patient list option" where
  "handleDragEnd ps active over =
     (case over of
        None \<Rightarrow> None
      | Some over_id \<Rightarrow>
          if active = over_id then None
          else
            (case (findIndex (\<lambda>p. p_id p = active) ps, findIndex (\<lambda>p. p_id p = over_id) ps) of
               (Some oldIndex, Some newIndex) \<Rightarrow> Some (arrayMove ps oldIndex newIndex)
             | _ \<Rightarrow> None))"

subsection \<open>Numbers\<close>

text \<open>
  A JavaScript number is an IEEE 754 double. A finite double is modelled by the rational it
  denotes, and an arithmetic operation gives the exact result rounded to the nearest double
  (53 significant bits, a tie to the even significand). The exponent range is not
  modelled: the values computed here from an array, whose length is below \<open>2^32\<close>, are
  zero or lie between \<open>2^-35\<close> and \<open>2^35\<close>.
\<close>

text \<open>The number of halvings that bring \<open>n\<close> below 2: \<open>\<lfloor>log\<^sub>2 n\<rfloor>\<close> for \<open>n > 0\<close>.\<close>

fun ilog2 :: "nat \<Rightarrow> nat" where
  "ilog2 n = (if n < 2 then 0 else Suc (ilog2 (n div 2)))"

declare ilog2.simps [simp del]

text \<open>The binary exponent of \<open>x > 0\<close>: the \<open>e\<close> with \<open>2^e \<le> x < 2^(e+1)\<close>.\<close>

definition binade :: "rat \<Rightarrow> int" where
  "binade x = (if 1 \<le> x then int (ilog2 (nat \<lfloor>x\<rfloor>))
               else - int (Suc (ilog2 (nat (\<lceil>1 / x\<rceil> - 1)))))"

definition pow2 :: "int \<Rightarrow> rat" where
  "pow2 e = (if 0 \<le> e then 2 ^ nat e else 1 / 2 ^ nat (- e))"

definition round_half_even :: "rat \<Rightarrow> int" where
  "round_half_even y =
     (let f = \<lfloor>y\<rfloor>; r = y - of_int f
      in if r < 1 / 2 then f else if 1 / 2 < r then f + 1 else if even f then f else f + 1)"

text \<open>The double nearest to \<open>x\<close>: \<open>x\<close> is rounded to a multiple of the spacing of the
  doubles of its binade.\<close>

definition to_double :: "rat \<Rightarrow> rat" where
  "to_double x =
     (if x = 0 then 0
      else (let q = pow2 (binade \<bar>x\<bar> - 52) in of_int (round_half_even (x / q)) * q))"

definition js_add :: "rat \<Rightarrow> rat \<Rightarrow> rat" where
  "js_add a b = to_double (a + b)"

definition js_mul :: "rat \<Rightarrow> rat \<Rightarrow> rat" where
  "js_mul a b = to_double (a * b)"

text \<open>For a divisor that is not zero.\<close>

definition js_div :: "rat \<Rightarrow> rat \<Rightarrow> rat" where
  "js_div a b = to_double (a / b)"

text \<open>\<^verbatim>\<open>Math.round\<close>: the nearest integer, a half upwards.\<close>

definition math_round :: "rat \<Rightarrow> int" where
  "math_round x = \<lfloor>x + 1 / 2\<rfloor>"

subsection \<open>Progress and the celebration\<close>

definition calcWeightedProgress :: "patient list \<Rightarrow> int" where
  "calcWeightedProgress ps =
     (if length ps = 0 then 0
      else math_round
             (js_mul
                (js_div (foldl (\<lambda>a p. js_add a (of_int (STATUS_WEIGHT (status p)))) 0 ps)
                        (js_mul (of_nat (length ps)) 5))
                100))"





subsection \<open>The entry-list dialog (\<^verbatim>\<open>PasienListModal\<close>)\<close>

text \<open>The dialog edits a copy of the entry list; the patient changes only when the copy is
  saved through \<^verbatim>\<open>onSave\<close>, which is \<^verbatim>\<open>handleSavePasienList\<close>.\<close>

record pasienListModal =
  entries :: "patientEntry list"
  editingId :: "jsstring option"
  editNama :: jsstring
  editTelp :: jsstring
  newNama :: jsstring
  newTelp :: jsstring

definition apply_edit :: "pasienListModal \<Rightarrow> patientEntry list" where
  "apply_edit m =
     map (\<lambda>p. if Some (pe_id p) = editingId m
               then p\<lparr>pe_namaPasien := js_trim (editNama m), pe_nomorTelp := js_trim (editTelp m)\<rparr>
               else p)
       (entries m)"

definition saveEdit :: "pasienListModal \<Rightarrow> pasienListModal" where
  "saveEdit m =
     (if js_trim (editNama m) = [] then m
      else m\<lparr>entries := apply_edit m, editingId := None\<rparr>)"

definition deleteEntry :: "jsstring \<Rightarrow> pasienListModal \<Rightarrow> pasienListModal" where
  "deleteEntry ident m =
     m\<lparr>entries := filter (\<lambda>p. pe_id p \<noteq> ident) (entries m),
       editingId := (if editingId m = Some ident then None else editingId m)\<rparr>"

definition addEntry :: "jsstring \<Rightarrow> pasienListModal \<Rightarrow> pasienListModal" where
  "addEntry now m =
     (if js_trim (newNama m) = [] then m
      else m\<lparr>entries := entries m @ [\<lparr>pe_id = js ''pe-'' @ now, pe_namaPasien = js_trim (newNama m),
                                          pe_nomorTelp = js_trim (newTelp m)\<rparr>],
             newNama := [], newTelp := []\<rparr>)"

text \<open>\<^verbatim>\<open>handleSave\<close> of the dialog: the list handed to \<^verbatim>\<open>onSave\<close>.\<close>

definition modal_handleSave :: "pasienListModal \<Rightarrow> patientEntry list" where
  "modal_handleSave m =
     (if truthy (editingId m) \<and> js_trim (editNama m) \<noteq> [] then apply_edit m else entries m)"

subsection \<open>The appointments table (\<^verbatim>\<open>AppointmentsTable\<close>)\<close>

record appointmentForm =
  f_tanggal :: jsstring
  f_jam :: jsstring
  f_kubikel :: jsstring
  f_rencanaPerawatan :: jsstring
  f_kasus :: jsstring
  f_departemen :: jsstring
  f_namaPasien :: jsstring
  f_nomorTelp :: jsstring

text \<open>\<^verbatim>\<open>{ ...appt, ...formData }\<close>.\<close>

definition with_form :: "appointment \<Rightarrow> appointmentForm \<Rightarrow> appointment" where
  "with_form appt fd =
     appt\<lparr>tanggal := f_tanggal fd, jam := f_jam fd, kubikel := f_kubikel fd,
          rencanaPerawatan := f_rencanaPerawatan fd, kasus := f_kasus fd,
          departemen := f_departemen fd, a_namaPasien := f_namaPasien fd,
          a_nomorTelp := f_nomorTelp fd\<rparr>"

text \<open>The handlers of the table close over its \<^verbatim>\<open>appointments\<close> prop, here \<open>appts\<close>.\<close>

definition handleSubmit_actions ::
  "appointment list \<Rightarrow> appointment option \<Rightarrow> appointmentForm \<Rightarrow> jsstring \<Rightarrow> action list" where
  "handleSubmit_actions appts editingAppt formData now =
     (let snapshot = appts in
      case editingAppt of
        Some ea \<Rightarrow>
          (let updated = with_form ea formData in
           [SetAppointments (map (\<lambda>a. if a_id a = a_id ea then updated else a) appts),
            Await [UpsertAppointment updated]
              [Toast (Success (js ''Appointment diperbarui''))]
              [SetAppointments snapshot, Toast (Error (js ''Gagal menyimpan. Perubahan dibatalkan.''))]
              []])
      | None \<Rightarrow>
          (let newAppt = with_form
                 \<lparr>a_id = js ''a-'' @ now, tanggal = [], jam = [], kubikel = [], rencanaPerawatan = [],
                  kasus = [], departemen = [], a_namaPasien = [], a_nomorTelp = [],
                  checklist = False\<rparr> formData in
           [SetAppointments (appts @ [newAppt]),
            Await [UpsertAppointment newAppt]
              [Toast (Success (js ''Appointment ditambahkan''))]
              [SetAppointments snapshot, Toast (Error (js ''Gagal menyimpan. Perubahan dibatalkan.''))]
              []]))"

definition confirmDelete_actions :: "appointment list \<Rightarrow> jsstring option \<Rightarrow> action list" where
  "confirmDelete_actions appts deletingId =
     (if truthy deletingId then
        (let snapshot = appts in
         [SetAppointments (filter (\<lambda>a. a_id a \<noteq> or_empty deletingId) appts),
          Await [DeleteAppointment (or_empty deletingId)]
            [Toast (Success (js ''Appointment dihapus''))]
            [SetAppointments snapshot, Toast (Error (js ''Gagal menghapus. Perubahan dibatalkan.''))]
            []])
      else [])"

definition toggleChecklist_actions :: "appointment list \<Rightarrow> jsstring \<Rightarrow> action list" where
  "toggleChecklist_actions appts ident =
     (let snapshot = appts;
          updated = map (\<lambda>a. if a_id a = ident then a\<lparr>checklist := \<not> checklist a\<rparr> else a) appts
      in SetAppointments updated #
         (case find (\<lambda>a. a_id a = ident) updated of
            None \<Rightarrow> []
          | Some appt \<Rightarrow>
              [Await [UpsertAppointment appt]
                 []
                 [SetAppointments snapshot,
                  Toast (Error (js ''Gagal menyimpan status. Perubahan dibatalkan.''))]
                 []]))"

definition handleSubmit :: "appointment option \<Rightarrow> appointmentForm \<Rightarrow> jsstring \<Rightarrow> ui \<Rightarrow> ui" where
  "handleSubmit editingAppt formData now s =
     run_actions (handleSubmit_actions (appointments s) editingAppt formData now) s"

definition confirmDelete :: "jsstring option \<Rightarrow> ui \<Rightarrow> ui" where
  "confirmDelete deletingId s = run_actions (confirmDelete_actions (appointments s) deletingId) s"

definition toggleChecklist :: "jsstring \<Rightarrow> ui \<Rightarrow> ui" where
  "toggleChecklist ident s = run_actions (toggleChecklist_actions (appointments s) ident) s"

subsection \<open>The weekly planner (\<^verbatim>\<open>WeeklyPlanning\<close>)\<close>

datatype dayKey = Senin | Selasa | Rabu | Kamis | Jumat

text \<open>\<^verbatim>\<open>{ ...s, [day]: value }\<close>.\<close>

fun set_day :: "dayKey \<Rightarrow> jsstring \<Rightarrow> weeklySlot \<Rightarrow> weeklySlot" where
  "set_day Senin v s = s\<lparr>senin := v\<rparr>"
| "set_day Selasa v s = s\<lparr>selasa := v\<rparr>"
| "set_day Rabu v s = s\<lparr>rabu := v\<rparr>"
| "set_day Kamis v s = s\<lparr>kamis := v\<rparr>"
| "set_day Jumat v s = s\<lparr>jumat := v\<rparr>"

text \<open>\<^verbatim>\<open>updateSlot\<close> resolves to \<^verbatim>\<open>true\<close> when the write succeeded; \<open>on_ok\<close> is what its
  caller does then.\<close>

definition updateSlot_actions ::
  "weeklySlot list \<Rightarrow> jsstring \<Rightarrow> dayKey \<Rightarrow> jsstring \<Rightarrow> action list \<Rightarrow> action list" where
  "updateSlot_actions slots slotId day v on_ok =
     (let snapshot = slots;
          updated = map (\<lambda>s. if w_id s = slotId then set_day day v s else s) slots
      in SetWeeklySlots updated #
         (case find (\<lambda>s. w_id s = slotId) updated of
            None \<Rightarrow>
              [SetWeeklySlots snapshot,
               Toast (Error (js ''Slot tidak ditemukan. Perubahan dibatalkan.''))]
          | Some target \<Rightarrow>
              [Await [UpsertWeeklySlot target]
                 on_ok
                 [SetWeeklySlots snapshot,
                  Toast (Error (js ''Gagal menyimpan jadwal. Perubahan dibatalkan.''))]
                 []]))"

datatype inputMode = SelectMode | ManualMode

record planning =
  editSlotId :: "jsstring option"
  saving :: bool
  editDay :: dayKey
  inputMode :: inputMode
  selectedDeptId :: jsstring
  selectedPatientId :: jsstring
  manualName :: jsstring
  manualTelp :: jsstring
  manualDept :: jsstring

definition getDeptPatients :: "department \<Rightarrow> patient list" where
  "getDeptPatients dept =
     (if hasSubDepartments dept then concat (map sd_patients (subs_or_empty dept))
      else filter hasPasien (patients dept))"

text \<open>The value \<^verbatim>\<open>handleSave\<close> writes into the cell, if it gets that far.\<close>

definition valueToSave :: "department list \<Rightarrow> planning \<Rightarrow> jsstring option" where
  "valueToSave depts pl =
     (case inputMode pl of
        SelectMode \<Rightarrow>
          (let selectedDept = find (\<lambda>d. d_id d = selectedDeptId pl) depts;
               deptPatients = (case selectedDept of Some d \<Rightarrow> getDeptPatients d | None \<Rightarrow> [])
           in case find (\<lambda>p. p_id p = selectedPatientId pl) deptPatients of
                None \<Rightarrow> None
              | Some sp \<Rightarrow>
                  Some (serializeSlotData
                    \<lparr>slot_n = namaPasien sp, slot_t = nomorTelp sp,
                     slot_d = (case selectedDept of Some d \<Rightarrow> d_name d | None \<Rightarrow> []),
                     slot_pid = p_id sp\<rparr>))
      | ManualMode \<Rightarrow>
          if js_trim (manualName pl) = [] then None
          else Some (serializeSlotData
                 \<lparr>slot_n = js_trim (manualName pl), slot_t = js_trim (manualTelp pl),
                  slot_d = (if manualDept pl = js ''__none__'' then [] else js_trim (manualDept pl)),
                  slot_pid = []\<rparr>))"

definition weekly_handleSave_actions :: "weeklySlot list \<Rightarrow> department list \<Rightarrow> planning \<Rightarrow> action list" where
  "weekly_handleSave_actions slots depts pl =
     (if \<not> truthy (editSlotId pl) \<or> saving pl then []
      else
        (case valueToSave depts pl of
           None \<Rightarrow> []
         | Some v \<Rightarrow>
             updateSlot_actions slots (or_empty (editSlotId pl)) (editDay pl) v
               [Toast (Success (js ''Jadwal berhasil disimpan''))]))"

definition handleClear_actions :: "weeklySlot list \<Rightarrow> planning \<Rightarrow> action list" where
  "handleClear_actions slots pl =
     (if \<not> truthy (editSlotId pl) \<or> saving pl then []
      else updateSlot_actions slots (or_empty (editSlotId pl)) (editDay pl) []
             [Toast (Success (js ''Jadwal dihapus''))])"

definition weekly_handleSave :: "planning \<Rightarrow> ui \<Rightarrow> ui" where
  "weekly_handleSave pl s =
     run_actions (weekly_handleSave_actions (weeklySlots s) (departments s) pl) s"

definition handleClear :: "planning \<Rightarrow> ui \<Rightarrow> ui" where
  "handleClear pl s = run_actions (handleClear_actions (weeklySlots s) pl) s"

subsection \<open>Photo upload (\<^verbatim>\<open>photo-modal.tsx\<close>, \<^verbatim>\<open>uploadPhotoBase64\<close>)\<close>

definition MAX_FILE_SIZE_MB :: nat where
  "MAX_FILE_SIZE_MB = 5"

definition MAX_FILE_SIZE_BYTES :: nat where
  "MAX_FILE_SIZE_BYTES = MAX_FILE_SIZE_MB * 1024 * 1024"

text \<open>A file picked by the user, and the blob its data URL decodes to: the size in bytes
  and the media type.\<close>

record js_file =
  f_size :: nat
  f_type :: jsstring

datatype upload_result = UploadThrows jsstring | UploadNull | UploadPhoto photo

text \<open>
  \<^verbatim>\<open>uploadPhotoBase64\<close>, with what the two calls to the service resolve to:
  \<open>uploadError\<close> for the storage upload, and the id of the inserted row (\<open>None\<close> when the
  insert reports an error or no data). The result comes with the requests issued, in
  order. \<open>getPublicUrl\<close> computes the URL of a path without a request.
\<close>

definition uploadPhotoBase64 ::
  "jsstring \<Rightarrow> js_file \<Rightarrow> jsstring \<Rightarrow> (jsstring \<Rightarrow> jsstring) \<Rightarrow> bool \<Rightarrow> jsstring option
     \<Rightarrow> upload_result \<times> request list" where
  "uploadPhotoBase64 patientId blob now getPublicUrl uploadError inserted =
     (if f_size blob > 5 * 1024 * 1024 then (UploadThrows (js ''Ukuran foto maksimum 5 MB''), [])
      else
        (let ext = (case js_split (js ''/'') (f_type blob) of
                      _ # e # _ \<Rightarrow> if e \<noteq> [] then e else js ''jpg''
                    | _ \<Rightarrow> js ''jpg'');
             path = patientId @ js ''/'' @ now @ js ''.'' @ ext
         in if uploadError then (UploadNull, [StorageUpload path])
            else
              (case inserted of
                 None \<Rightarrow> (UploadNull, [StorageUpload path, InsertPhotoRow patientId path])
               | Some row_id \<Rightarrow>
                   (UploadPhoto \<lparr>ph_id = row_id, url = getPublicUrl path, storagePath = path\<rparr>,
                    [StorageUpload path, InsertPhotoRow patientId path]))))"

record photoModal =
  sizeError :: jsstring
  uploading :: bool

text \<open>
  \<^verbatim>\<open>handleFileChange\<close>. \<open>onAddPhoto\<close> is the prop of that name: given the picked file (read
  as a data URL) it returns the message of the error it threw, if any, and its effects.
  The second component of the result is \<open>None\<close> when \<open>onAddPhoto\<close> was not called.
  \<open>toFixed1\<close> formats the size in megabytes for the message.
\<close>

definition handleFileChange ::
  "(nat \<Rightarrow> jsstring) \<Rightarrow> (js_file \<Rightarrow> jsstring option \<times> 'e) \<Rightarrow> js_file option \<Rightarrow> photoModal
     \<Rightarrow> photoModal \<times> 'e option" where
  "handleFileChange toFixed1 onAddPhoto picked m =
     (case picked of
        None \<Rightarrow> (m, None)
      | Some f \<Rightarrow>
          if f_size f > MAX_FILE_SIZE_BYTES then
            (m\<lparr>sizeError := js ''Ukuran foto melebihi batas 5 MB ('' @ toFixed1 (f_size f)
                              @ js '' MB). Harap pilih foto yang lebih kecil.''\<rparr>, None)
          else
            (let (thrown, effects) = onAddPhoto f
             in (m\<lparr>sizeError := (case thrown of Some msg \<Rightarrow> msg | None \<Rightarrow> []), uploading := False\<rparr>,
                 Some effects)))"

subsection \<open>Photos of a requirement (\<^verbatim>\<open>handleAddPhoto\<close>, \<^verbatim>\<open>handleRemovePhoto\<close>)\<close>

text \<open>
  Calls awaited one after the other, of which no reply is looked at: \<open>k\<close> runs when the
  last one has resolved, \<open>ca\<close> when one rejects.
\<close>

fun awaits :: "request list \<Rightarrow> action list \<Rightarrow> action list \<Rightarrow> action list" where
  "awaits [] k ca = k"
| "awaits (r # rs) k ca = [Await [r] (awaits rs k ca) ca []]"

text \<open>\<^verbatim>\<open>updatePhotosInState\<close>.\<close>

definition updatePhotosInState ::
  "department \<Rightarrow> jsstring \<Rightarrow> photo list \<Rightarrow> jsstring option \<Rightarrow> department option" where
  "updatePhotosInState dept patientId phs subDeptId =
     updated_department dept subDeptId (map (\<lambda>p. if p_id p = patientId then p\<lparr>photos := phs\<rparr> else p))"

text \<open>
  \<^verbatim>\<open>handleAddPhoto\<close>, called by \<^verbatim>\<open>handleFileChange\<close> inside a \<^verbatim>\<open>try\<close> whose
  \<^verbatim>\<open>catch\<close> sets the error line of the dialog: what it throws reaches neither the shared
  state nor a notification. The replies of the service (\<open>uploadError\<close>, \<open>inserted\<close>) are
  those \<^verbatim>\<open>uploadPhotoBase64\<close> reads. The department is handed to \<^verbatim>\<open>onUpdate\<close> only when
  the photo row has been inserted: nothing is applied beforehand.
\<close>

definition handleAddPhoto_actions ::
  "card \<Rightarrow> js_file \<Rightarrow> jsstring \<Rightarrow> (jsstring \<Rightarrow> jsstring) \<Rightarrow> bool \<Rightarrow> jsstring option \<Rightarrow> action list" where
  "handleAddPhoto_actions c f now getPublicUrl uploadError inserted =
     (case photoPatient c of
        None \<Rightarrow> []
      | Some pp \<Rightarrow>
          (case uploadPhotoBase64 (p_id pp) f now getPublicUrl uploadError inserted of
             (UploadThrows msg, reqs) \<Rightarrow> []
           | (UploadNull, reqs) \<Rightarrow> awaits reqs [] []
           | (UploadPhoto ph, reqs) \<Rightarrow>
               awaits reqs
                 (case updatePhotosInState (department c) (p_id pp) (photos pp @ [ph])
                         (photoSubDeptId c) of
                    None \<Rightarrow> []
                  | Some updated \<Rightarrow> [OnUpdateDepartment updated])
                 []))"

definition handleAddPhoto ::
  "card \<Rightarrow> js_file \<Rightarrow> jsstring \<Rightarrow> (jsstring \<Rightarrow> jsstring) \<Rightarrow> bool \<Rightarrow> jsstring option \<Rightarrow> ui \<Rightarrow> ui" where
  "handleAddPhoto c f now getPublicUrl uploadError inserted s =
     run_actions (handleAddPhoto_actions c f now getPublicUrl uploadError inserted) s"

text \<open>
  \<^verbatim>\<open>deletePhoto\<close>: the stored file is removed when the photo has a storage path, then the
  row is deleted.
\<close>

definition deletePhoto_requests :: "photo \<Rightarrow> request list" where
  "deletePhoto_requests ph =
     (if storagePath ph \<noteq> [] then [StorageRemove (storagePath ph)] else [])
       @ [DeletePhotoRow (ph_id ph)]"

text \<open>
  \<^verbatim>\<open>handleRemovePhoto\<close>: there is no \<^verbatim>\<open>try\<close>, neither here nor in \<^verbatim>\<open>handleRemove\<close>
  of the dialog, which only has a \<^verbatim>\<open>finally\<close>. The department is handed to
  \<^verbatim>\<open>onUpdate\<close> when the photo has been deleted.
\<close>

definition handleRemovePhoto_actions :: "card \<Rightarrow> nat \<Rightarrow> action list" where
  "handleRemovePhoto_actions c index =
     (case photoPatient c of
        None \<Rightarrow> []
      | Some pp \<Rightarrow>
          if index < length (photos pp) then
            (let ph = photos pp ! index;
                 newPhotos = take index (photos pp) @ drop (Suc index) (photos pp)
             in awaits (deletePhoto_requests ph)
                  (case updatePhotosInState (department c) (p_id pp) newPhotos (photoSubDeptId c) of
                     None \<Rightarrow> [Throw]
                   | Some updated \<Rightarrow>
                       [OnUpdateDepartment updated, Toast (Success (js ''Foto dihapus''))])
                  [Throw])
          else [])"

definition handleRemovePhoto :: "card \<Rightarrow> nat \<Rightarrow> ui \<Rightarrow> ui" where
  "handleRemovePhoto c index s = run_actions (handleRemovePhoto_actions c index) s"

subsection \<open>User actions and interleavings\<close>

text \<open>The mutations the user can start, with the props and state the handler reads.\<close>

datatype flow =
    AddDepartment jsstring bool jsstring
  | DeleteDepartmentOf jsstring
  | SavePatientForm card jsstring patientStatus jsstring
  | SavePasienList card "patientEntry list"
  | StatusChange card jsstring patientStatus "jsstring option"
  | ConfirmDeletePatient card
  | AddSubDept card jsstring
  | ReorderPatients card "patient list" "jsstring option"
  | AddPhoto card js_file jsstring "jsstring \<Rightarrow> jsstring" bool "jsstring option"
  | RemovePhoto card nat
  | SubmitAppointment "appointment option" appointmentForm jsstring
  | ConfirmDeleteAppointment "jsstring option"
  | ToggleChecklist jsstring
  | SaveSlot planning
  | ClearSlot planning

fun start :: "flow \<Rightarrow> ui \<Rightarrow> ui" where
  "start (AddDepartment name hasSub now) s = handleAddDepartment name hasSub now s"
| "start (DeleteDepartmentOf ident) s = handleDeleteDepartment ident s"
| "start (SavePatientForm c req st now) s = handleSavePatientForm c req st now s"
| "start (SavePasienList c updatedList) s = handleSavePasienList c updatedList s"
| "start (StatusChange c patientId st subDeptId) s = handleStatusChange c patientId st subDeptId s"
| "start (ConfirmDeletePatient c) s = confirmDeletePatient c s"
| "start (AddSubDept c now) s = handleAddSubDept c now s"
| "start (ReorderPatients c newList subDeptId) s = handleReorderPatients c newList subDeptId s"
| "start (AddPhoto c f now getPublicUrl uploadError inserted) s =
     handleAddPhoto c f now getPublicUrl uploadError inserted s"
| "start (RemovePhoto c index) s = handleRemovePhoto c index s"
| "start (SubmitAppointment editingAppt formData now) s = handleSubmit editingAppt formData now s"
| "start (ConfirmDeleteAppointment deletingId) s = confirmDelete deletingId s"
| "start (ToggleChecklist ident) s = toggleChecklist ident s"
| "start (SaveSlot pl) s = weekly_handleSave pl s"
| "start (ClearSlot pl) s = handleClear pl s"

text \<open>What happens in the single-threaded event loop: a user action runs up to its first
  \<^verbatim>\<open>await\<close>, or a call in flight settles and its continuation runs.\<close>

datatype event = Start flow | Settle nat outcome

fun step :: "ui \<Rightarrow> event \<Rightarrow> ui" where
  "step s (Start f) = start f s"
| "step s (Settle i oc) = settle i oc s"

definition run :: "event list \<Rightarrow> ui \<Rightarrow> ui" where
  "run evs s = foldl step s evs"

text \<open>A state with nothing in flight.\<close>

definition idle :: "department list \<Rightarrow> appointment list \<Rightarrow> weeklySlot list \<Rightarrow> ui" where
  "idle ds as ws =
     \<lparr>departments = ds, appointments = as, weeklySlots = ws, toasts = [], requests = [],
      inflight = [], unhandled = 0\<rparr>"

subsection \<open>Notions used in the statements\<close>

text \<open>The calls that write; \<^verbatim>\<open>getNextSortOrder\<close> reads.\<close>

fun is_write :: "request \<Rightarrow> bool" where
  "is_write (GetNextSortOrder d sd) = False"
| "is_write r = True"

fun is_success :: "action \<Rightarrow> bool" where
  "is_success (Toast (Success m)) = True"
| "is_success a = False"


text \<open>
  What a handler does once an awaited write has resolved. In the handlers that apply their
  change beforehand it notifies success or goes on to its next call, or it ends on a
  TypeError. The photo handlers, which apply nothing beforehand, hand the changed
  department to \<^verbatim>\<open>onUpdate\<close> when the last write of \<^verbatim>\<open>uploadPhotoBase64\<close> or of
  \<^verbatim>\<open>deletePhoto\<close>, the one on the photo row, has resolved.
\<close>

fun inert :: "action \<Rightarrow> bool" where
  "inert (Toast (Success m)) = True"
| "inert (Await reqs th ca af) = True"
| "inert Throw = True"
| "inert a = False"

fun applying :: "action \<Rightarrow> bool" where
  "applying (OnUpdateDepartment d) = True"
| "applying a = inert a"

fun is_photo_row :: "request \<Rightarrow> bool" where
  "is_photo_row (InsertPhotoRow patientId path) = True"
| "is_photo_row (DeletePhotoRow ident) = True"
| "is_photo_row r = False"

definition photo_row_write :: "request list \<Rightarrow> bool" where
  "photo_row_write reqs \<longleftrightarrow> reqs \<noteq> [] \<and> list_all is_photo_row reqs"

text \<open>This holds for the statements of a handler and of every continuation in them.\<close>

fun quiet_on_success :: "action \<Rightarrow> bool" where
  "quiet_on_success (Await reqs th ca af) =
     ((if list_all is_write reqs
       then list_all (if photo_row_write reqs then applying else inert) (th @ af) else True)
      \<and> list_all quiet_on_success th \<and> list_all quiet_on_success ca \<and> list_all quiet_on_success af)"
| "quiet_on_success a = True"

definition quiet_pending :: "pending \<Rightarrow> bool" where
  "quiet_pending p \<longleftrightarrow>
     (if list_all is_write (awaited p)
      then list_all (if photo_row_write (awaited p) then applying else inert)
             (on_then p @ on_after p)
      else True)
     \<and> list_all quiet_on_success (on_then p) \<and> list_all quiet_on_success (on_catch p)
     \<and> list_all quiet_on_success (on_after p)"

text \<open>Every call in flight has such a continuation.\<close>

definition all_quiet :: "ui \<Rightarrow> bool" where
  "all_quiet s \<longleftrightarrow> list_all quiet_pending (inflight s)"



text \<open>The patient rows a handler writes, now or in a continuation.\<close>

fun patient_row_of :: "request \<Rightarrow> patient_row list" where
  "patient_row_of (UpsertPatient row) = [row]"
| "patient_row_of r = []"

fun patient_writes_of :: "action \<Rightarrow> patient_row list" where
  "patient_writes_of (Await reqs th ca af) =
     concat (map patient_row_of reqs) @ concat (map patient_writes_of th)
       @ concat (map patient_writes_of ca) @ concat (map patient_writes_of af)"
| "patient_writes_of a = []"

text \<open>The legacy fields of a patient, and the legacy columns of a row, agree with the entry
  list.\<close>

definition legacy_synced :: "patient \<Rightarrow> bool" where
  "legacy_synced p \<longleftrightarrow>
     hasPasien p = (pasienList p \<noteq> [])
     \<and> namaPasien p = (if pasienList p = [] then [] else pe_namaPasien (hd (pasienList p)))
     \<and> nomorTelp p = (if pasienList p = [] then [] else pe_nomorTelp (hd (pasienList p)))"

definition row_synced :: "patient_row \<Rightarrow> patientEntry list \<Rightarrow> bool" where
  "row_synced row es \<longleftrightarrow>
     pasien_list row = Some (json_stringify (JArray (map entry_object es)))
     \<and> has_pasien row = (es \<noteq> [])
     \<and> nama_pasien row = (if es = [] then [] else pe_namaPasien (hd es))
     \<and> nomor_telp row = (if es = [] then [] else pe_nomorTelp (hd es))"

subsection \<open>Departments with sub-departments\<close>

text \<open>
  How the card calls its handlers. For a department with sub-departments every control
  that leads to a handler (add, edit, status, delete, entry list, photos, reorder) is
  rendered inside a sub-department and passes \<^verbatim>\<open>sub.id\<close>, which the dialog state keeps
  as \<^verbatim>\<open>subDeptId || null\<close>; the department-level button that adds a requirement is
  rendered only under \<^verbatim>\<open>!hasSubDepartments\<close>. The id is that of a sub-department of the
  department, as \<open>rendered\<close> says; what the handlers need of it is that it is a non-empty
  string, as \<open>addressed\<close> says.
\<close>

definition rendered :: "department \<Rightarrow> jsstring option \<Rightarrow> bool" where
  "rendered dept subDeptId \<longleftrightarrow>
     (if hasSubDepartments dept
      then subDeptId \<in> set (map (\<lambda>sub. if sd_id sub = [] then None else Some (sd_id sub))
                               (subs_or_empty dept))
      else subDeptId = None)"

definition addressed :: "department \<Rightarrow> jsstring option \<Rightarrow> bool" where
  "addressed dept subDeptId \<longleftrightarrow> (hasSubDepartments dept \<longrightarrow> truthy subDeptId)"

text \<open>
  A user action the interface offers in a state: the card shows a department of the store
  and the handler is called as above.
\<close>

fun offered :: "ui \<Rightarrow> flow \<Rightarrow> bool" where
  "offered s (SavePatientForm c req st now) =
     (department c \<in> set (departments s) \<and> addressed (department c) (targetSubDeptId c))"
| "offered s (SavePasienList c updatedList) =
     (department c \<in> set (departments s) \<and> addressed (department c) (pasienListSubDeptId c))"
| "offered s (StatusChange c patientId st subDeptId) =
     (department c \<in> set (departments s) \<and> addressed (department c) subDeptId)"
| "offered s (ConfirmDeletePatient c) =
     (department c \<in> set (departments s) \<and> addressed (department c) (deletingSubDeptId c))"
| "offered s (AddSubDept c now) = (department c \<in> set (departments s))"
| "offered s (ReorderPatients c newList subDeptId) =
     (department c \<in> set (departments s) \<and> addressed (department c) subDeptId)"
| "offered s (AddPhoto c f now getPublicUrl uploadError inserted) =
     (department c \<in> set (departments s) \<and> addressed (department c) (photoSubDeptId c))"
| "offered s (RemovePhoto c index) =
     (department c \<in> set (departments s) \<and> addressed (department c) (photoSubDeptId c))"
| "offered s f = True"

text \<open>An interleaving in which every user action is one the interface offers in the state
  where it starts.\<close>

fun offered_run :: "ui \<Rightarrow> event list \<Rightarrow> bool" where
  "offered_run s [] = True"
| "offered_run s (Start f # evs) = (offered s f \<and> offered_run (start f s) evs)"
| "offered_run s (Settle i oc # evs) = offered_run (settle i oc s) evs"

text \<open>
  A department with sub-departments has no patient of its own, and its sub-departments
  have ids.
\<close>

definition sub_only :: "department \<Rightarrow> bool" where
  "sub_only d \<longleftrightarrow>
     (hasSubDepartments d \<longrightarrow>
        patients d = [] \<and> list_all (\<lambda>sub. sd_id sub \<noteq> []) (subs_or_empty d))"

text \<open>The same of every department in a handler's statements and continuations.\<close>

fun sub_only_action :: "action \<Rightarrow> bool" where
  "sub_only_action (SetDepartments ds) = list_all sub_only ds"
| "sub_only_action (OnUpdateDepartment d) = sub_only d"
| "sub_only_action (Await reqs th ca af) =
     (list_all sub_only_action th \<and> list_all sub_only_action ca \<and> list_all sub_only_action af)"
| "sub_only_action a = True"

definition sub_only_pending :: "pending \<Rightarrow> bool" where
  "sub_only_pending p \<longleftrightarrow>
     list_all sub_only_action (on_then p) \<and> list_all sub_only_action (on_catch p)
     \<and> list_all sub_only_action (on_after p)"

definition sub_only_ui :: "ui \<Rightarrow> bool" where
  "sub_only_ui s \<longleftrightarrow> list_all sub_only (departments s) \<and> list_all sub_only_pending (inflight s)"

text \<open>
  The rows as the handlers write them: a patient row of a department with
  sub-departments names a sub-department, and the rows of its sub-departments have ids.
\<close>

definition rows_as_written ::
  "department_row list \<Rightarrow> sub_department_row list \<Rightarrow> patient_row list \<Rightarrow> bool" where
  "rows_as_written dept_rows sub_rows patient_rows \<longleftrightarrow>
     list_all (\<lambda>d. has_sub_departments d \<longrightarrow>
                 list_all (\<lambda>p. pr_department_id p = dr_id d \<longrightarrow> truthy (pr_sub_department_id p))
                   patient_rows
                 \<and> list_all (\<lambda>s. sr_department_id s = dr_id d \<longrightarrow> sr_id s \<noteq> []) sub_rows)
       dept_rows"

section \<open>Properties of the JSON model\<close>

subsection \<open>The parser consumes input and never runs out of fuel\<close>

lemma skip_ws_Cons_length: "skip_ws s = c # cs \<Longrightarrow> length cs < length s"
proof -
  assume a: "skip_ws s = c # cs"
  have "length (skip_ws s) \<le> length s"
    unfolding skip_ws_def by (rule length_dropWhile_le)
  with a show ?thesis by simp
qed

lemma cons_result_Some:
  "cons_result c x = Some (str, r) \<Longrightarrow> \<exists>str'. x = Some (str', r)"
  by (cases x) (auto simp: cons_result_def)

lemma parse_string_body_length:
  "parse_string_body s = Some (str, r) \<Longrightarrow> length r < length s"
proof (induction s arbitrary: str rule: parse_string_body.induct)
  case 1
  then show ?case by simp
next
  case (2 c cs)
  show ?case
  proof (cases "c = 0x22")
    case True
    with 2(4) show ?thesis by simp
  next
    case q: False
    show ?thesis
    proof (cases "c = 0x5C")
      case False
      with q 2(4) have lt: "\<not> c < 0x20" and cr: "cons_result c (parse_string_body cs) = Some (str, r)"
        by (auto split: if_splits)
      from cons_result_Some [OF cr] obtain str' where "parse_string_body cs = Some (str', r)" by blast
      from 2(3) [OF q False lt this] show ?thesis by simp
    next
      case True
      show ?thesis
      proof (cases cs)
        case Nil
        with q True 2(4) show ?thesis by simp
      next
        case (Cons e es)
        show ?thesis
        proof (cases "e = 0x75")
          case u: True
          with q True Cons 2(4) obtain h1 h2 h3 h4 rest v where
            es: "es = h1 # h2 # h3 # h4 # rest" and hv: "hex4 h1 h2 h3 h4 = Some v"
            and cr: "cons_result v (parse_string_body rest) = Some (str, r)"
            by (auto split: list.splits option.splits)
          from cons_result_Some [OF cr] obtain str' where "parse_string_body rest = Some (str', r)" by blast
          from 2(1) [OF q True Cons u es refl refl refl hv this] show ?thesis using Cons es by simp
        next
          case nu: False
          with q True Cons 2(4) obtain v where sv: "simple_escape e = Some v"
            and cr: "cons_result v (parse_string_body es) = Some (str, r)"
            by (auto split: option.splits)
          from cons_result_Some [OF cr] obtain str' where "parse_string_body es = Some (str', r)" by blast
          from 2(2) [OF q True Cons nu sv this] show ?thesis using Cons by simp
        qed
      qed
    qed
  qed
qed

lemma int_len_pos: "int_len s = Some i \<Longrightarrow> 0 < i \<and> s \<noteq> []"
  by (auto simp: int_len_def split: list.splits if_splits)

lemma number_len_pos: "number_len s = Some n \<Longrightarrow> 0 < n \<and> s \<noteq> []"
  by (auto simp: number_len_def Let_def split: option.splits dest!: int_len_pos)

lemma parse_scalar_length: "parse_scalar s = Ok v r \<Longrightarrow> length r < length s"
proof (cases s)
  case Nil
  assume "parse_scalar s = Ok v r"
  with Nil show ?thesis by (simp add: parse_scalar_def)
next
  case (Cons c cs)
  assume a: "parse_scalar s = Ok v r"
  show ?thesis
  proof (cases "c = 0x22")
    case True
    with a Cons obtain str where "parse_string_body cs = Some (str, r)"
      by (auto simp: parse_scalar_def split: option.splits)
    from parse_string_body_length [OF this] Cons show ?thesis by simp
  next
    case False
    with a Cons have "r = drop 4 s \<or> r = drop 5 s \<or> (\<exists>n. number_len s = Some n \<and> r = drop n s)"
      by (auto simp: parse_scalar_def split: if_splits option.splits)
    then show ?thesis
      using Cons by (auto dest!: number_len_pos)
  qed
qed


lemma parse_length:
  "(\<forall>s v r. parse_value n s = Ok v r \<longrightarrow> length r < length s) \<and>
   (\<forall>s vs r. parse_elements n s = Ok vs r \<longrightarrow> length r < length s) \<and>
   (\<forall>s kvs r. parse_members n s = Ok kvs r \<longrightarrow> length r < length s)"
proof (induction n)
  case 0
  show ?case by simp
next
  case (Suc n)
  have V: "\<And>s v r. parse_value n s = Ok v r \<Longrightarrow> length r < length s"
    and E: "\<And>s vs r. parse_elements n s = Ok vs r \<Longrightarrow> length r < length s"
    and M: "\<And>s kvs r. parse_members n s = Ok kvs r \<Longrightarrow> length r < length s"
    using Suc by blast+
  show ?case
  proof (intro conjI allI impI)
    fix s v r
    assume a: "parse_value (Suc n) s = Ok v r"
    then obtain c cs where sk: "skip_ws s = c # cs"
      by (auto split: list.splits)
    note l0 = skip_ws_Cons_length [OF sk]
    show "length r < length s"
    proof (cases "c = 0x5B")
      case arr: True
      with a sk obtain d ds where sk2: "skip_ws cs = d # ds"
        by (auto split: list.splits)
      note l1 = skip_ws_Cons_length [OF sk2]
      show ?thesis
      proof (cases "d = 0x5D")
        case True
        with a sk arr sk2 have "r = ds" by simp
        with l0 l1 show ?thesis by simp
      next
        case False
        with a sk arr sk2 obtain v1 r1 vs where
          p: "parse_value n (d # ds) = Ok v1 r1" "parse_elements n r1 = Ok vs r"
          by (auto split: presult.splits)
        from V [OF p(1)] E [OF p(2)] l0 l1 show ?thesis by simp
      qed
    next
      case narr: False
      show ?thesis
      proof (cases "c = 0x7B")
        case obj: True
        with a sk narr obtain d ds where sk2: "skip_ws cs = d # ds"
          by (auto split: list.splits)
        note l1 = skip_ws_Cons_length [OF sk2]
        show ?thesis
        proof (cases "d = 0x7D")
          case True
          with a sk narr obj sk2 have "r = ds" by simp
          with l0 l1 show ?thesis by simp
        next
          case False
          with a sk narr obj sk2 obtain kvs where
            p: "parse_members n (d # ds) = Ok kvs r"
            by (auto split: presult.splits)
          from M [OF p] l0 l1 show ?thesis by simp
        qed
      next
        case False
        with a sk narr have "parse_scalar (c # cs) = Ok v r" by simp
        from parse_scalar_length [OF this] l0 show ?thesis by simp
      qed
    qed
  next
    fix s vs r
    assume a: "parse_elements (Suc n) s = Ok vs r"
    then obtain c cs where sk: "skip_ws s = c # cs"
      by (auto split: list.splits)
    note l0 = skip_ws_Cons_length [OF sk]
    show "length r < length s"
    proof (cases "c = 0x5D")
      case True
      with a sk have "r = cs" by simp
      with l0 show ?thesis by simp
    next
      case False
      with a sk obtain v1 r1 vs1 where
        p: "parse_value n cs = Ok v1 r1" "parse_elements n r1 = Ok vs1 r"
        by (auto split: presult.splits if_splits)
      from V [OF p(1)] E [OF p(2)] l0 show ?thesis by simp
    qed
  next
    fix s kvs r
    assume a: "parse_members (Suc n) s = Ok kvs r"
    then obtain c cs where sk: "skip_ws s = c # cs"
      by (auto split: list.splits)
    note l0 = skip_ws_Cons_length [OF sk]
    from a sk have q: "c = 0x22" by (auto split: if_splits)
    with a sk obtain k r1 where ps: "parse_string_body cs = Some (k, r1)"
      by (auto split: option.splits)
    note l1 = parse_string_body_length [OF ps]
    from a sk q ps obtain d ds where sk2: "skip_ws r1 = d # ds"
      by (auto split: list.splits)
    note l2 = skip_ws_Cons_length [OF sk2]
    from a sk q ps sk2 have col: "d = 0x3A" by (auto split: if_splits)
    with a sk q ps sk2 obtain v1 r2 where pv: "parse_value n ds = Ok v1 r2"
      by (auto split: presult.splits)
    note l3 = V [OF pv]
    from a sk q ps sk2 col pv obtain e es where sk3: "skip_ws r2 = e # es"
      by (auto split: list.splits)
    note l4 = skip_ws_Cons_length [OF sk3]
    show "length r < length s"
    proof (cases "e = 0x7D")
      case True
      with a sk q ps sk2 col pv sk3 have "r = es" by simp
      with l0 l1 l2 l3 l4 show ?thesis by simp
    next
      case False
      with a sk q ps sk2 col pv sk3 obtain kvs1 where
        p: "parse_members n es = Ok kvs1 r"
        by (auto split: presult.splits if_splits)
      from M [OF p] l0 l1 l2 l3 l4 show ?thesis by simp
    qed
  qed
qed


lemmas parse_value_length = parse_length [THEN conjunct1, rule_format]
lemmas parse_elements_length = parse_length [THEN conjunct2, THEN conjunct1, rule_format]
lemmas parse_members_length = parse_length [THEN conjunct2, THEN conjunct2, rule_format]

lemma parse_scalar_fuel: "parse_scalar s \<noteq> OutOfFuel"
  by (auto simp: parse_scalar_def split: list.splits option.splits)

lemma parse_fuel:
  "(\<forall>s. length s < n \<longrightarrow> parse_value n s \<noteq> OutOfFuel) \<and>
   (\<forall>s. length s < n \<longrightarrow> parse_elements n s \<noteq> OutOfFuel) \<and>
   (\<forall>s. length s < n \<longrightarrow> parse_members n s \<noteq> OutOfFuel)"
proof (induction n)
  case 0
  show ?case by simp
next
  case (Suc n)
  have V: "\<And>s. length s < n \<Longrightarrow> parse_value n s \<noteq> OutOfFuel"
    and E: "\<And>s. length s < n \<Longrightarrow> parse_elements n s \<noteq> OutOfFuel"
    and M: "\<And>s. length s < n \<Longrightarrow> parse_members n s \<noteq> OutOfFuel"
    using Suc by blast+
  show ?case
  proof (intro conjI allI impI notI)
    fix s
    assume len: "length s < Suc n" and a: "parse_value (Suc n) s = OutOfFuel"
    from a obtain c cs where sk: "skip_ws s = c # cs"
      by (auto split: list.splits)
    from skip_ws_Cons_length [OF sk] len have l0: "length cs < n" by simp
    show False
    proof (cases "c = 0x5B")
      case arr: True
      with a sk obtain d ds where sk2: "skip_ws cs = d # ds"
        by (auto split: list.splits)
      from skip_ws_Cons_length [OF sk2] l0 have l1: "length (d # ds) < n" by simp
      from a sk arr sk2 have "parse_value n (d # ds) = OutOfFuel
          \<or> (\<exists>v1 r1. parse_value n (d # ds) = Ok v1 r1 \<and> parse_elements n r1 = OutOfFuel)"
        by (auto split: presult.splits if_splits)
      then show False
      proof
        assume "parse_value n (d # ds) = OutOfFuel"
        with V [OF l1] show False by simp
      next
        assume "\<exists>v1 r1. parse_value n (d # ds) = Ok v1 r1 \<and> parse_elements n r1 = OutOfFuel"
        then obtain v1 r1 where p: "parse_value n (d # ds) = Ok v1 r1" "parse_elements n r1 = OutOfFuel"
          by blast
        from parse_value_length [OF p(1)] l1 have "length r1 < n" by simp
        from E [OF this] p(2) show False by simp
      qed
    next
      case narr: False
      show False
      proof (cases "c = 0x7B")
        case obj: True
        with a sk narr obtain d ds where sk2: "skip_ws cs = d # ds"
          by (auto split: list.splits)
        from skip_ws_Cons_length [OF sk2] l0 have l1: "length (d # ds) < n" by simp
        from a sk narr obj sk2 have "parse_members n (d # ds) = OutOfFuel"
          by (auto split: presult.splits if_splits)
        with M [OF l1] show False by simp
      next
        case False
        with a sk narr have "parse_scalar (c # cs) = OutOfFuel" by simp
        with parse_scalar_fuel show False by blast
      qed
    qed
  next
    fix s
    assume len: "length s < Suc n" and a: "parse_elements (Suc n) s = OutOfFuel"
    from a obtain c cs where sk: "skip_ws s = c # cs"
      by (auto split: list.splits)
    from skip_ws_Cons_length [OF sk] len have l0: "length cs < n" by simp
    from a sk have "parse_value n cs = OutOfFuel
        \<or> (\<exists>v1 r1. parse_value n cs = Ok v1 r1 \<and> parse_elements n r1 = OutOfFuel)"
      by (auto split: presult.splits if_splits)
    then show False
    proof
      assume "parse_value n cs = OutOfFuel"
      with V [OF l0] show False by simp
    next
      assume "\<exists>v1 r1. parse_value n cs = Ok v1 r1 \<and> parse_elements n r1 = OutOfFuel"
      then obtain v1 r1 where p: "parse_value n cs = Ok v1 r1" "parse_elements n r1 = OutOfFuel"
        by blast
      from parse_value_length [OF p(1)] l0 have "length r1 < n" by simp
      from E [OF this] p(2) show False by simp
    qed
  next
    fix s
    assume len: "length s < Suc n" and a: "parse_members (Suc n) s = OutOfFuel"
    from a obtain c cs where sk: "skip_ws s = c # cs"
      by (auto split: list.splits)
    from skip_ws_Cons_length [OF sk] len have l0: "length cs < n" by simp
    from a sk have q: "c = 0x22" by (auto split: if_splits)
    with a sk obtain k r1 where ps: "parse_string_body cs = Some (k, r1)"
      by (auto split: option.splits)
    from parse_string_body_length [OF ps] l0 have l1: "length r1 < n" by simp
    from a sk q ps obtain d ds where sk2: "skip_ws r1 = d # ds"
      by (auto split: list.splits)
    from skip_ws_Cons_length [OF sk2] l1 have l2: "length ds < n" by simp
    from a sk q ps sk2 have col: "d = 0x3A" by (auto split: if_splits)
    from a sk q ps sk2 col have "parse_value n ds = OutOfFuel
        \<or> (\<exists>v1 r2 e es. parse_value n ds = Ok v1 r2 \<and> skip_ws r2 = e # es
              \<and> parse_members n es = OutOfFuel)"
      by (auto split: presult.splits if_splits list.splits)
    then show False
    proof
      assume "parse_value n ds = OutOfFuel"
      with V [OF l2] show False by simp
    next
      assume "\<exists>v1 r2 e es. parse_value n ds = Ok v1 r2 \<and> skip_ws r2 = e # es
              \<and> parse_members n es = OutOfFuel"
      then obtain v1 r2 e es where p: "parse_value n ds = Ok v1 r2" "skip_ws r2 = e # es"
          "parse_members n es = OutOfFuel"
        by blast
      from parse_value_length [OF p(1)] skip_ws_Cons_length [OF p(2)] l2 have "length es < n" by simp
      from M [OF this] p(3) show False by simp
    qed
  qed
qed

text \<open>The fuel \<open>json_parse\<close> supplies is never used up: \<open>None\<close> is a syntax error.\<close>

lemma json_parse_fuel: "parse_value (Suc (length s)) s \<noteq> OutOfFuel"
  using parse_fuel [of "Suc (length s)"] by simp

lemma json_parse_None_iff:
  "json_parse s = None \<longleftrightarrow>
     parse_value (Suc (length s)) s = SyntaxError
     \<or> (\<exists>v r. parse_value (Suc (length s)) s = Ok v r \<and> skip_ws r \<noteq> [])"
  using json_parse_fuel [of s]
  by (cases "parse_value (Suc (length s)) s") (auto simp: json_parse_def)

subsection \<open>Strings written by \<^verbatim>\<open>JSON.stringify\<close> are read back\<close>

lemma enum16: "(v::nat) < 16 \<Longrightarrow> v = 0 \<or> v = 1 \<or> v = 2 \<or> v = 3 \<or> v = 4 \<or> v = 5 \<or> v = 6 \<or> v = 7 \<or> v = 8 \<or>
      v = 9 \<or> v = 10 \<or> v = 11 \<or> v = 12 \<or> v = 13 \<or> v = 14 \<or> v = 15"
  by (simp add: numeral_eq_Suc less_Suc_eq) 


lemma hex_val_hex_digit:
  assumes "v < 16"
  shows "hex_val (hex_digit v) = Some v"
  using enum16 [OF assms] by (elim disjE; simp add: hex_val_def hex_digit_def)

lemma hex4_unicode_escape:
  "hex4 (hex_digit (unat c div 4096)) (hex_digit (unat c div 256 mod 16))
        (hex_digit (unat c div 16 mod 16)) (hex_digit (unat c mod 16)) = Some (c :: code_unit)"
proof -
  have lt: "unat c < 65536" using unsigned_less [of c, where ?'a = nat] by simp
  then have d3: "unat c div 4096 < 16" by simp
  have e1: "unat c div 4096 * 16 + unat c div 256 mod 16 = unat c div 256"
    using div_mult_mod_eq [of "unat c div 256" 16] by (simp add: div_mult2_eq [symmetric])
  have e2: "unat c div 256 * 16 + unat c div 16 mod 16 = unat c div 16"
    using div_mult_mod_eq [of "unat c div 16" 16] by (simp add: div_mult2_eq [symmetric])
  have e3: "unat c div 16 * 16 + unat c mod 16 = unat c"
    using div_mult_mod_eq [of "unat c" 16] by simp
  have eq: "((unat c div 4096 * 16 + unat c div 256 mod 16) * 16 + unat c div 16 mod 16) * 16 + unat c mod 16 = unat c"
    by (simp only: e1 e2 e3)
  have w: "(of_nat (((unat c div 4096 * 16 + unat c div 256 mod 16) * 16 + unat c div 16 mod 16) * 16
              + unat c mod 16) :: code_unit) = c"
    by (simp only: eq) simp
  have h1: "hex_val (hex_digit (unat c div 4096)) = Some (unat c div 4096)"
    by (rule hex_val_hex_digit [OF d3])
  have h2: "hex_val (hex_digit (unat c div 256 mod 16)) = Some (unat c div 256 mod 16)"
    by (rule hex_val_hex_digit) simp
  have h3: "hex_val (hex_digit (unat c div 16 mod 16)) = Some (unat c div 16 mod 16)"
    by (rule hex_val_hex_digit) simp
  have h4: "hex_val (hex_digit (unat c mod 16)) = Some (unat c mod 16)"
    by (rule hex_val_hex_digit) simp
  show ?thesis
    unfolding hex4_def by (simp only: h1 h2 h3 h4 prod.case option.case w)
qed

lemma parse_unicode_escape:
  "parse_string_body (unicode_escape c @ rest) = cons_result c (parse_string_body rest)"
  by (simp add: unicode_escape_def hex4_unicode_escape)


lemma parse_quote_unit:
  "parse_string_body (quote_unit c @ rest) = cons_result c (parse_string_body rest)"
  by (auto simp: quote_unit_def parse_unicode_escape simple_escape_def)

lemma parse_quote_body:
  "parse_string_body (quote_body s @ 0x22 # rest) = Some (s, rest)"
proof (induction s rule: quote_body.induct)
  case 1
  show ?case by simp
next
  case (2 c)
  show ?case by (simp add: parse_quote_unit cons_result_def)
next
  case (3 c d ds)
  show ?case
  proof (cases "is_lead_surrogate c \<and> is_trail_surrogate d")
    case True
    then have "c \<noteq> 0x22" "c \<noteq> 0x5C" "\<not> c < 0x20" "d \<noteq> 0x22" "d \<noteq> 0x5C" "\<not> d < 0x20"
      unfolding is_lead_surrogate_def is_trail_surrogate_def by unat_arith+
    with True 3 show ?thesis by (simp add: cons_result_def)
  next
    case False
    then have q: "quote_body (c # d # ds) = quote_unit c @ quote_body (d # ds)"
      by (simp only: quote_body.simps if_False)
    have "parse_string_body (quote_body (d # ds) @ 0x22 # rest) = Some (d # ds, rest)"
      using 3(2) [OF False] .
    then show ?thesis
      by (simp only: q append_assoc parse_quote_unit cons_result_def option.map prod.case)
  qed
qed

lemma parse_scalar_string:
  "parse_scalar (quote_json_string s @ rest) = Ok (JString s) rest"
  by (simp add: parse_scalar_def quote_json_string_def parse_quote_body)


lemma skip_ws_quote: "skip_ws (quote_json_string s @ rest) = quote_json_string s @ rest"
  by (simp add: skip_ws_def quote_json_string_def json_ws_def)

lemma skip_ws_punct:
  "skip_ws (0x3A # rest) = 0x3A # rest"
  "skip_ws (0x2C # rest) = 0x2C # rest"
  "skip_ws (0x7D # rest) = 0x7D # rest"
  "skip_ws (0x7B # rest) = 0x7B # rest"
  "skip_ws [] = []"
  by (simp_all add: skip_ws_def json_ws_def)

lemma parse_value_string:
  "parse_value (Suc k) (quote_json_string s @ rest) = Ok (JString s) rest"
proof -
  have "parse_value (Suc k) (quote_json_string s @ rest) = parse_scalar (quote_json_string s @ rest)"
    by (simp add: quote_json_string_def skip_ws_def json_ws_def)
  then show ?thesis by (simp only: parse_scalar_string)
qed

lemma parse_members_last:
  "parse_members (Suc (Suc k)) (quote_json_string key @ 0x3A # quote_json_string v @ 0x7D # rest)
     = Ok [(key, JString v)] rest"
proof -
  have v: "parse_value (Suc k) (quote_json_string v @ 0x7D # rest) = Ok (JString v) (0x7D # rest)"
    by (rule parse_value_string)
  have s: "skip_ws (0x22 # quote_body key @ 0x22 # 0x3A # quote_json_string v @ 0x7D # rest)
      = 0x22 # quote_body key @ 0x22 # 0x3A # quote_json_string v @ 0x7D # rest"
    by (simp add: skip_ws_def json_ws_def)
  show ?thesis
    apply (subst parse_members.simps)
    apply (simp only: quote_json_string_def [of key] append_Cons append_assoc append_Nil s list.case)
    apply (simp only: parse_quote_body option.case prod.case skip_ws_punct list.case v presult.case)
    apply simp
    done
qed

lemma parse_members_more:
  "parse_members (Suc (Suc k)) (quote_json_string key @ 0x3A # quote_json_string v @ 0x2C # ms)
     = (case parse_members (Suc k) ms of
          Ok kvs r \<Rightarrow> Ok ((key, JString v) # kvs) r
        | SyntaxError \<Rightarrow> SyntaxError
        | OutOfFuel \<Rightarrow> OutOfFuel)"
proof -
  have v: "parse_value (Suc k) (quote_json_string v @ 0x2C # ms) = Ok (JString v) (0x2C # ms)"
    by (rule parse_value_string)
  have s: "skip_ws (0x22 # quote_body key @ 0x22 # 0x3A # quote_json_string v @ 0x2C # ms)
      = 0x22 # quote_body key @ 0x22 # 0x3A # quote_json_string v @ 0x2C # ms"
    by (simp add: skip_ws_def json_ws_def)
  show ?thesis
    apply (subst parse_members.simps)
    apply (simp only: quote_json_string_def [of key] append_Cons append_assoc append_Nil s list.case)
    apply (simp only: parse_quote_body option.case prod.case skip_ws_punct list.case v presult.case)
    apply simp
    done
qed

lemma parse_value_object_start:
  assumes "ms = 0x22 # t"
  shows "parse_value (Suc n) (0x7B # ms) =
     (case parse_members n ms of
        Ok kvs r \<Rightarrow> Ok (JObject kvs) r
      | SyntaxError \<Rightarrow> SyntaxError
      | OutOfFuel \<Rightarrow> OutOfFuel)"
  by (simp add: assms skip_ws_def json_ws_def)

section \<open>The weekly-slot codec\<close>

lemma serializeSlotData_text:
  "serializeSlotData x =
     0x7B # quote_json_string (js ''n'') @ 0x3A # quote_json_string (slot_n x) @ 0x2C #
            quote_json_string (js ''t'') @ 0x3A # quote_json_string (slot_t x) @ 0x2C #
            quote_json_string (js ''d'') @ 0x3A # quote_json_string (slot_d x) @ 0x2C #
            quote_json_string (js ''pid'') @ 0x3A # quote_json_string (slot_pid x) @ [0x7D]"
  by (simp add: serializeSlotData_def slot_object_def stringify_member_def)

lemma parse_value_slot_object:
  "parse_value (Suc (Suc (Suc (Suc (Suc (Suc k)))))) (serializeSlotData x) = Ok (slot_object x) []"
proof -
  let ?m4 = "quote_json_string (js ''pid'') @ 0x3A # quote_json_string (slot_pid x) @ 0x7D # []"
  let ?m3 = "quote_json_string (js ''d'') @ 0x3A # quote_json_string (slot_d x) @ 0x2C # ?m4"
  let ?m2 = "quote_json_string (js ''t'') @ 0x3A # quote_json_string (slot_t x) @ 0x2C # ?m3"
  let ?m1 = "quote_json_string (js ''n'') @ 0x3A # quote_json_string (slot_n x) @ 0x2C # ?m2"
  have p4: "parse_members (Suc (Suc k)) ?m4 = Ok [(js ''pid'', JString (slot_pid x))] []"
    by (rule parse_members_last)
  have p3: "parse_members (Suc (Suc (Suc k))) ?m3
      = Ok [(js ''d'', JString (slot_d x)), (js ''pid'', JString (slot_pid x))] []"
    by (subst parse_members_more) (simp only: p4 presult.case)
  have p2: "parse_members (Suc (Suc (Suc (Suc k)))) ?m2
      = Ok [(js ''t'', JString (slot_t x)), (js ''d'', JString (slot_d x)),
            (js ''pid'', JString (slot_pid x))] []"
    by (subst parse_members_more) (simp only: p3 presult.case)
  have p1: "parse_members (Suc (Suc (Suc (Suc (Suc k))))) ?m1
      = Ok [(js ''n'', JString (slot_n x)), (js ''t'', JString (slot_t x)),
            (js ''d'', JString (slot_d x)), (js ''pid'', JString (slot_pid x))] []"
    by (subst parse_members_more) (simp only: p2 presult.case)
  have stxt: "serializeSlotData x = 0x7B # ?m1"
    by (simp add: serializeSlotData_text)
  have hd: "?m1 = 0x22 # tl ?m1"
    by (simp add: quote_json_string_def)
  show ?thesis
    by (simp only: stxt parse_value_object_start [OF hd] p1 presult.case slot_object_def)
qed

lemma length_serializeSlotData: "5 \<le> length (serializeSlotData x)"
  by (simp add: serializeSlotData_text quote_json_string_def)

lemma json_parse_serializeSlotData: "json_parse (serializeSlotData x) = Some (slot_object x)"
proof -
  obtain k where k: "length (serializeSlotData x) = 5 + k"
    using length_serializeSlotData [of x] le_Suc_ex by blast
  have "Suc (length (serializeSlotData x)) = Suc (Suc (Suc (Suc (Suc (Suc k)))))"
    by (simp add: k)
  then show ?thesis
    by (simp only: json_parse_def parse_value_slot_object presult.case skip_ws_punct if_True simp_thms)
qed

lemma serializeSlotData_not_blank: "js_trim (serializeSlotData x) \<noteq> []"
  by (simp add: serializeSlotData_text js_trim_def js_is_whitespace_def)

lemma serializeSlotData_not_break: "serializeSlotData x \<noteq> js ''ISTIRAHAT''"
  by (simp add: serializeSlotData_text js_def)

text \<open>
  Claim C3. The weekly-slot codec round-trips: for every structured booking value \<open>x\<close> (a record
  with the fields n, t, d, pid), \<^verbatim>\<open>parseSlotValue(serializeSlotData(x))\<close> returns the object
  with exactly the fields of \<open>x\<close>; \<^verbatim>\<open>parseSlotValue("ISTIRAHAT")\<close> returns the break sentinel;
  and \<^verbatim>\<open>parseSlotValue("")\<close> returns the empty value.
\<close>

theorem slot_codec_round_trip:
  "parseSlotValue (serializeSlotData x) = SlotObject (slot_object x)
   \<and> parseSlotValue (js ''ISTIRAHAT'') = SlotIstirahat
   \<and> parseSlotValue [] = SlotEmpty"
proof (intro conjI)
  have ne: "serializeSlotData x \<noteq> []"
    by (simp add: serializeSlotData_text)
  have obj: "is_object_value (slot_object x)" "js_in (js ''n'') (slot_object x)"
    by (simp_all add: slot_object_def)
  show "parseSlotValue (serializeSlotData x) = SlotObject (slot_object x)"
    unfolding parseSlotValue_def
    by (simp only: ne serializeSlotData_not_blank serializeSlotData_not_break
        json_parse_serializeSlotData obj option.case if_False if_True simp_thms)
  show "parseSlotValue (js ''ISTIRAHAT'') = SlotIstirahat"
    by (simp add: parseSlotValue_def js_def js_trim_def js_is_whitespace_def)
  show "parseSlotValue [] = SlotEmpty"
    by (simp add: parseSlotValue_def)
qed

subsection \<open>The legacy fallback\<close>

lemma split_from_not_Nil: "split_from sep cur s \<noteq> []"
  by (induction sep cur s rule: split_from.induct) auto

lemma js_trim_Nil: "js_trim [] = []"
  by (simp add: js_trim_def)

text \<open>
  Claim C8, as stated, fails on a cell that holds only white space: it is not empty, is not
  the break sentinel and is not JSON, yet \<^verbatim>\<open>parseSlotValue\<close> returns the empty value for it
  (the guard \<^verbatim>\<open>val.trim() === ""\<close>), not a structured value.
\<close>

theorem legacy_fallback_blank_counterexample:
  "js '' '' \<noteq> [] \<and> js '' '' \<noteq> js ''ISTIRAHAT'' \<and> json_parse (js '' '') = None
   \<and> parseSlotValue (js '' '') = SlotEmpty"
  by (simp add: js_def json_parse_def skip_ws_def json_ws_def parseSlotValue_def js_trim_def
      js_is_whitespace_def)

text \<open>
  Claim C8, amended. For every raw day-cell string that is not blank (not empty after
  \<^verbatim>\<open>trim\<close>), is not the break sentinel and fails JSON parsing, \<^verbatim>\<open>parseSlotValue\<close> signals no
  error: it returns a structured value whose \<open>n\<close> is the first piece of the split on
  \<^verbatim>\<open>" - "\<close> (the whole string when that piece is empty) and is never empty, whose \<open>d\<close> is the
  second piece (empty when there is none), and whose \<open>t\<close> and \<open>pid\<close> are empty. The raw value
  \<^verbatim>\<open>"Jane - 2024-01-01"\<close> parses to \<^verbatim>\<open>{n: "Jane", d: "2024-01-01", t: "", pid: ""}\<close>.
\<close>

theorem legacy_fallback:
  assumes "js_trim val \<noteq> []" and "val \<noteq> js ''ISTIRAHAT''" and "json_parse val = None"
  shows "(\<exists>x. parseSlotValue val = SlotObject (slot_object x)
           \<and> slot_n x = (if hd (js_split (js '' - '') val) \<noteq> [] then hd (js_split (js '' - '') val) else val)
           \<and> slot_n x \<noteq> []
           \<and> slot_d x = (case tl (js_split (js '' - '') val) of [] \<Rightarrow> [] | p1 # _ \<Rightarrow> p1)
           \<and> slot_t x = [] \<and> slot_pid x = [])
         \<and> parseSlotValue (js ''Jane - 2024-01-01'')
           = SlotObject (slot_object \<lparr>slot_n = js ''Jane'', slot_t = [], slot_d = js ''2024-01-01'',
                                       slot_pid = []\<rparr>)"
proof (intro conjI)
  from assms(1) have ne: "val \<noteq> []"
    using js_trim_Nil by auto
  obtain p0 ps where parts: "js_split (js '' - '') val = p0 # ps"
    using split_from_not_Nil [of "js '' - ''" "[]" val]
    by (cases "js_split (js '' - '') val") (auto simp: js_split_def)
  let ?x = "\<lparr>slot_n = (if p0 \<noteq> [] then p0 else val), slot_t = [],
             slot_d = (case ps of [] \<Rightarrow> [] | p1 # _ \<Rightarrow> p1), slot_pid = []\<rparr>"
  have "parseSlotValue val = SlotObject (slot_object ?x)"
    using assms ne parts by (cases ps) (simp_all add: parseSlotValue_def Let_def)
  moreover have "slot_n ?x \<noteq> []"
    using ne by simp
  ultimately show "\<exists>x. parseSlotValue val = SlotObject (slot_object x)
           \<and> slot_n x = (if hd (js_split (js '' - '') val) \<noteq> [] then hd (js_split (js '' - '') val) else val)
           \<and> slot_n x \<noteq> []
           \<and> slot_d x = (case tl (js_split (js '' - '') val) of [] \<Rightarrow> [] | p1 # _ \<Rightarrow> p1)
           \<and> slot_t x = [] \<and> slot_pid x = []"
    using parts by (intro exI [of _ ?x]) simp
  show "parseSlotValue (js ''Jane - 2024-01-01'')
           = SlotObject (slot_object \<lparr>slot_n = js ''Jane'', slot_t = [], slot_d = js ''2024-01-01'',
                                       slot_pid = []\<rparr>)"
    by (simp add: js_def json_parse_def skip_ws_def json_ws_def parseSlotValue_def js_trim_def
        js_is_whitespace_def parse_scalar_def number_len_def int_len_def is_digit_def
        js_split_def)
qed

theorem legacy_fallback_witness:
  "js_trim (js ''Jane - 2024-01-01'') \<noteq> [] \<and> js ''Jane - 2024-01-01'' \<noteq> js ''ISTIRAHAT''
   \<and> json_parse (js ''Jane - 2024-01-01'') = None
   \<and> (\<exists>x. parseSlotValue (js ''Jane - 2024-01-01'') = SlotObject (slot_object x)
          \<and> slot_n x = js ''Jane'' \<and> slot_d x = js ''2024-01-01'' \<and> slot_t x = [] \<and> slot_pid x = [])"
proof -
  have h1: "js_trim (js ''Jane - 2024-01-01'') \<noteq> []"
    by (simp add: js_def js_trim_def js_is_whitespace_def)
  have h2: "js ''Jane - 2024-01-01'' \<noteq> js ''ISTIRAHAT''"
    by (simp add: js_def)
  have h3: "json_parse (js ''Jane - 2024-01-01'') = None"
    by (simp add: js_def json_parse_def skip_ws_def json_ws_def parse_scalar_def number_len_def
        int_len_def is_digit_def)
  have sp: "js_split (js '' - '') (js ''Jane - 2024-01-01'') = [js ''Jane'', js ''2024-01-01'']"
    by (simp add: js_def js_split_def)
  from legacy_fallback [OF h1 h2 h3] obtain x where
    "parseSlotValue (js ''Jane - 2024-01-01'') = SlotObject (slot_object x)"
    "slot_n x = (if hd (js_split (js '' - '') (js ''Jane - 2024-01-01'')) \<noteq> []
                 then hd (js_split (js '' - '') (js ''Jane - 2024-01-01'')) else js ''Jane - 2024-01-01'')"
    "slot_d x = (case tl (js_split (js '' - '') (js ''Jane - 2024-01-01'')) of [] \<Rightarrow> [] | p1 # _ \<Rightarrow> p1)"
    "slot_t x = []" "slot_pid x = []"
    by blast
  then have "parseSlotValue (js ''Jane - 2024-01-01'') = SlotObject (slot_object x)
      \<and> slot_n x = js ''Jane'' \<and> slot_d x = js ''2024-01-01'' \<and> slot_t x = [] \<and> slot_pid x = []"
    by (simp only: sp) (simp add: js_def)
  then show ?thesis using h1 h2 h3 by blast
qed

section \<open>The store under \<^verbatim>\<open>handleUpdateDepartment\<close>\<close>

lemma replace_back:
  assumes "distinct (map d_id ds)" and "dept \<in> set ds" and "d_id upd = d_id dept"
  shows "map (\<lambda>d. if d_id d = d_id dept then dept else d)
           (map (\<lambda>d. if d_id d = d_id upd then upd else d) ds) = ds"
proof -
  have "\<And>d. d \<in> set ds \<Longrightarrow> d_id d = d_id dept \<Longrightarrow> d = dept"
    using assms(1,2) by (meson distinct_map inj_onD)
  then have "\<And>d. d \<in> set ds \<Longrightarrow>
      (if d_id (if d_id d = d_id upd then upd else d) = d_id dept then dept
       else (if d_id d = d_id upd then upd else d)) = d"
    using assms(3) by auto
  then show ?thesis
    by (simp add: map_idI comp_def)
qed

lemma departments_handleUpdateDepartment:
  "departments (handleUpdateDepartment upd s)
     = map (\<lambda>d. if d_id d = d_id upd then upd else d) (departments s)"
  by (simp add: handleUpdateDepartment_def await_call_def Let_def)

lemma inflight_handleUpdateDepartment:
  "inflight (handleUpdateDepartment upd s)
     = inflight s @ [\<lparr>awaited = [UpsertDepartment (upsertDepartment_row upd)], on_then = [],
          on_catch = [SetDepartments (departments s),
                      Toast (Error (js ''Gagal menyimpan departemen. Perubahan dibatalkan.''))],
          on_after = []\<rparr>]"
  by (simp add: handleUpdateDepartment_def await_call_def Let_def)

lemma toasts_handleUpdateDepartment: "toasts (handleUpdateDepartment upd s) = toasts s"
  by (simp add: handleUpdateDepartment_def await_call_def Let_def)

lemma requests_handleUpdateDepartment:
  "requests (handleUpdateDepartment upd s) = requests s @ [UpsertDepartment (upsertDepartment_row upd)]"
  by (simp add: handleUpdateDepartment_def await_call_def Let_def)

section \<open>Reading from the service\<close>

text \<open>
  Claim C10, as stated, fails for \<^verbatim>\<open>fetchDepartments\<close> when the error is in one of its
  secondary queries: with the departments read and the patients query failing, the result
  is the list of departments without patients, not the empty list.
\<close>

theorem fetchDepartments_secondary_error_counterexample:
  "fetchDepartments
     \<lparr>data = Some [\<lparr>dr_id = js ''d1'', dr_name = js ''Ortho'', has_sub_departments = False\<rparr>], error = None\<rparr>
     \<lparr>data = Some [], error = None\<rparr>
     \<lparr>data = None, error = Some (js ''timeout'')\<rparr>
     \<lparr>data = Some [], error = None\<rparr>
   = Inr [\<lparr>d_id = js ''d1'', d_name = js ''Ortho'', patients = [], hasSubDepartments = False,
           subDepartments = Some []\<rparr>]"
  by (simp add: fetchDepartments_def data_or_empty_def toDepartment_def)

text \<open>
  Claim C10, amended. Every list-fetch operation (\<^verbatim>\<open>fetchDepartments\<close>,
  \<^verbatim>\<open>fetchAppointments\<close>, \<^verbatim>\<open>fetchWeeklySlots\<close>) returns the empty list, without throwing,
  when its own table's query reports an error or has no data, so that this read failure
  cannot be told from an empty table. For \<^verbatim>\<open>fetchDepartments\<close> an error or missing data in
  the sub-department, patient or photo query is not looked at: the result is the one for an
  empty table in its place.
\<close>

theorem list_fetch_total:
  "(error r1 \<noteq> None \<or> data r1 = None \<longrightarrow> fetchDepartments r1 subs pats phs = Inr [])
   \<and> (error r2 \<noteq> None \<or> data r2 = None \<longrightarrow> fetchAppointments r2 = [])
   \<and> (error r3 \<noteq> None \<or> data r3 = None \<longrightarrow> fetchWeeklySlots r3 = [])
   \<and> fetchDepartments r1 subs pats phs
       = fetchDepartments r1 \<lparr>data = Some (data_or_empty subs), error = None\<rparr>
           \<lparr>data = Some (data_or_empty pats), error = None\<rparr>
           \<lparr>data = Some (data_or_empty phs), error = None\<rparr>"
  by (simp add: fetchDepartments_def fetchAppointments_def fetchWeeklySlots_def data_or_empty_def)

theorem list_fetch_total_witness:
  "fetchDepartments \<lparr>data = None, error = Some (js ''timeout'')\<rparr>
       \<lparr>data = None, error = None\<rparr> \<lparr>data = None, error = None\<rparr> \<lparr>data = None, error = None\<rparr> = Inr []
   \<and> fetchAppointments \<lparr>data = None, error = Some (js ''timeout'')\<rparr> = []
   \<and> fetchWeeklySlots \<lparr>data = Some [], error = Some (js ''timeout'')\<rparr> = []"
  using list_fetch_total [of "\<lparr>data = None, error = Some (js ''timeout'')\<rparr>"
      "\<lparr>data = None, error = None\<rparr>" "\<lparr>data = None, error = None\<rparr>" "\<lparr>data = None, error = None\<rparr>"
      "\<lparr>data = None, error = Some (js ''timeout'')\<rparr>"
      "\<lparr>data = Some [], error = Some (js ''timeout'')\<rparr>"]
  by simp

section \<open>The photo size guard\<close>

text \<open>
  Claim C7. A photo whose size exceeds 5 MB (\<open>5 * 1024 * 1024\<close> bytes), in particular one of
  5 MB + 1 byte, is rejected before any call to the service: \<^verbatim>\<open>handleFileChange\<close> sets the
  size error and does not call \<^verbatim>\<open>onAddPhoto\<close>, and \<^verbatim>\<open>uploadPhotoBase64\<close> itself throws
  before the storage upload and the row insert. A photo of exactly 5 MB passes the guard:
  \<^verbatim>\<open>onAddPhoto\<close> is called and the storage upload is issued.
\<close>

theorem photo_size_guard:
  "(MAX_FILE_SIZE_BYTES < f_size f \<longrightarrow>
       snd (handleFileChange toFixed1 onAddPhoto (Some f) m) = None
       \<and> sizeError (fst (handleFileChange toFixed1 onAddPhoto (Some f) m)) \<noteq> []
       \<and> snd (uploadPhotoBase64 patientId f now getPublicUrl uploadError inserted) = [])
   \<and> (f_size f = MAX_FILE_SIZE_BYTES \<longrightarrow>
       snd (handleFileChange toFixed1 onAddPhoto (Some f) m) = Some (snd (onAddPhoto f))
       \<and> (\<exists>path rest. snd (uploadPhotoBase64 patientId f now getPublicUrl uploadError inserted)
                          = StorageUpload path # rest))
   \<and> MAX_FILE_SIZE_BYTES = 5 * 1024 * 1024"
  by (auto simp: handleFileChange_def uploadPhotoBase64_def MAX_FILE_SIZE_BYTES_def
      MAX_FILE_SIZE_MB_def js_def Let_def split: prod.splits option.splits)

theorem photo_size_guard_witness:
  "snd (handleFileChange (\<lambda>n. js ''5.0'') (\<lambda>f. (None, ())) (Some \<lparr>f_size = 5 * 1024 * 1024 + 1, f_type = js ''image/png''\<rparr>)
          \<lparr>sizeError = [], uploading = False\<rparr>) = None
   \<and> snd (uploadPhotoBase64 (js ''p1'') \<lparr>f_size = 5 * 1024 * 1024 + 1, f_type = js ''image/png''\<rparr>
          (js ''17'') (\<lambda>p. p) False (Some (js ''ph1''))) = []
   \<and> snd (handleFileChange (\<lambda>n. js ''5.0'') (\<lambda>f. (None, ())) (Some \<lparr>f_size = 5 * 1024 * 1024, f_type = js ''image/png''\<rparr>)
          \<lparr>sizeError = [], uploading = False\<rparr>) = Some ()
   \<and> snd (uploadPhotoBase64 (js ''p1'') \<lparr>f_size = 5 * 1024 * 1024, f_type = js ''image/png''\<rparr>
          (js ''17'') (\<lambda>p. p) False (Some (js ''ph1'')))
       = [StorageUpload (js ''p1/17.png''), InsertPhotoRow (js ''p1'') (js ''p1/17.png'')]"
proof -
  have big: "MAX_FILE_SIZE_BYTES < f_size \<lparr>f_size = 5 * 1024 * 1024 + 1, f_type = js ''image/png''\<rparr>"
    by (simp add: MAX_FILE_SIZE_BYTES_def MAX_FILE_SIZE_MB_def)
  have exact: "f_size \<lparr>f_size = 5 * 1024 * 1024, f_type = js ''image/png''\<rparr> = MAX_FILE_SIZE_BYTES"
    by (simp add: MAX_FILE_SIZE_BYTES_def MAX_FILE_SIZE_MB_def)
  have up: "snd (uploadPhotoBase64 (js ''p1'') \<lparr>f_size = 5 * 1024 * 1024, f_type = js ''image/png''\<rparr>
          (js ''17'') (\<lambda>p. p) False (Some (js ''ph1'')))
       = [StorageUpload (js ''p1/17.png''), InsertPhotoRow (js ''p1'') (js ''p1/17.png'')]"
    by (simp add: uploadPhotoBase64_def js_def js_split_def Let_def)
  from photo_size_guard [of "\<lparr>f_size = 5 * 1024 * 1024 + 1, f_type = js ''image/png''\<rparr>"
      "\<lambda>n. js ''5.0''" "\<lambda>f. (None, ())" "\<lparr>sizeError = [], uploading = False\<rparr>"
      "js ''p1''" "js ''17''" "\<lambda>p. p" False "Some (js ''ph1'')"] big
  have a: "snd (handleFileChange (\<lambda>n. js ''5.0'') (\<lambda>f. (None, ())) (Some \<lparr>f_size = 5 * 1024 * 1024 + 1, f_type = js ''image/png''\<rparr>)
          \<lparr>sizeError = [], uploading = False\<rparr>) = None"
    and b: "snd (uploadPhotoBase64 (js ''p1'') \<lparr>f_size = 5 * 1024 * 1024 + 1, f_type = js ''image/png''\<rparr>
          (js ''17'') (\<lambda>p. p) False (Some (js ''ph1''))) = []"
    by blast+
  from photo_size_guard [of "\<lparr>f_size = 5 * 1024 * 1024, f_type = js ''image/png''\<rparr>"
      "\<lambda>n. js ''5.0''" "\<lambda>f. (None, ())" "\<lparr>sizeError = [], uploading = False\<rparr>"
      "js ''p1''" "js ''17''" "\<lambda>p. p" False "Some (js ''ph1'')"] exact
  have c: "snd (handleFileChange (\<lambda>n. js ''5.0'') (\<lambda>f. (None, ())) (Some \<lparr>f_size = 5 * 1024 * 1024, f_type = js ''image/png''\<rparr>)
          \<lparr>sizeError = [], uploading = False\<rparr>) = Some ()"
    by simp
  from a b c up show ?thesis by blast
qed

section \<open>The celebration\<close>







text \<open>
  The quotient and the product are rounded: eight requirements with weights summing to 23
  give \<open>0.575\<close>, whose double lies below it, and the progress is 57, not 58.
\<close>

lemma calcWeightedProgress_rounds_as_doubles:
  "calcWeightedProgress
     (replicate 7 \<lparr>p_id = [], requirement = [], status = Tindakan, pasienList = [],
                    hasPasien = False, namaPasien = [], nomorTelp = [], photos = []\<rparr>
      @ [\<lparr>p_id = [], requirement = [], status = DiskusiDPJP, pasienList = [],
          hasPasien = False, namaPasien = [], nomorTelp = [], photos = []\<rparr>]) = 57"
  by code_simp






section \<open>Reordering by drag and drop\<close>

text \<open>
  Claim C6. For a patient list \<open>[A, B, C]\<close> (with the id of \<open>C\<close> different from the other
  two) dragging \<open>C\<close> onto \<open>A\<close> hands \<open>[C, A, B]\<close> to the reorder handler, which puts this
  order into the local state and issues one position write per patient (\<open>C\<close> at 1, \<open>A\<close> at 2,
  \<open>B\<close> at 3) as one batch; when any of the position writes fails, the local departments
  are what they were before the drag (the ids of the departments being distinct) and the
  failure is notified.
\<close>

theorem reorder_drag_example:
  assumes ids: "p_id C \<noteq> p_id A" "p_id C \<noteq> p_id B"
    and ps: "patients (department c) = [A, B, C]"
    and ds: "distinct (map d_id (departments s))" "department c \<in> set (departments s)"
    and fails: "Rejected \<in> set ocs"
  shows "handleDragEnd [A, B, C] (p_id C) (Some (p_id A)) = Some [C, A, B]
    \<and> departments (handleReorderPatients c [C, A, B] None s)
        = map (\<lambda>d. if d_id d = d_id (department c) then (department c)\<lparr>patients := [C, A, B]\<rparr> else d)
            (departments s)
    \<and> requests (handleReorderPatients c [C, A, B] None s)
        = requests s @ [UpsertDepartment (upsertDepartment_row ((department c)\<lparr>patients := [C, A, B]\<rparr>)),
            UpsertPatientSortOrder (p_id C) 1, UpsertPatientSortOrder (p_id A) 2,
            UpsertPatientSortOrder (p_id B) 3]
    \<and> departments (settle (Suc (length (inflight s))) (promise_all ocs)
                      (handleReorderPatients c [C, A, B] None s)) = departments s
    \<and> toasts (settle (Suc (length (inflight s))) (promise_all ocs)
                 (handleReorderPatients c [C, A, B] None s))
        = toasts s @ [Error (js ''Gagal menyimpan urutan.'')]"
proof (intro conjI)
  let ?upd = "(department c)\<lparr>patients := [C, A, B]\<rparr>"
  let ?s1 = "handleReorderPatients c [C, A, B] None s"
  show "handleDragEnd [A, B, C] (p_id C) (Some (p_id A)) = Some [C, A, B]"
    using ids by (auto simp: handleDragEnd_def arrayMove_def)
  have acts: "handleReorderPatients_actions c [C, A, B] None
      = [OnUpdateDepartment ?upd,
         Await [UpsertPatientSortOrder (p_id C) 1, UpsertPatientSortOrder (p_id A) 2,
                UpsertPatientSortOrder (p_id B) 3] []
           [OnUpdateDepartment (department c), Toast (Error (js ''Gagal menyimpan urutan.''))] []]"
    by (simp add: handleReorderPatients_actions_def updated_department_def truthy_def
        position_writes_def upt_rec Let_def numeral_2_eq_2 numeral_3_eq_3)
  have s1: "?s1 = await_call [UpsertPatientSortOrder (p_id C) 1, UpsertPatientSortOrder (p_id A) 2,
                UpsertPatientSortOrder (p_id B) 3] []
           [OnUpdateDepartment (department c), Toast (Error (js ''Gagal menyimpan urutan.''))] []
           (handleUpdateDepartment ?upd s)"
    by (simp add: handleReorderPatients_def acts)
  show d1: "departments ?s1 = map (\<lambda>d. if d_id d = d_id (department c) then ?upd else d) (departments s)"
    by (simp add: s1 await_call_def departments_handleUpdateDepartment)
  show "requests ?s1 = requests s @ [UpsertDepartment (upsertDepartment_row ?upd),
            UpsertPatientSortOrder (p_id C) 1, UpsertPatientSortOrder (p_id A) 2,
            UpsertPatientSortOrder (p_id B) 3]"
    by (simp add: s1 await_call_def requests_handleUpdateDepartment)
  have pa: "promise_all ocs = Rejected"
    using fails by (simp add: promise_all_def)
  have infl: "inflight ?s1 = inflight s @
      [\<lparr>awaited = [UpsertDepartment (upsertDepartment_row ?upd)], on_then = [],
          on_catch = [SetDepartments (departments s),
                      Toast (Error (js ''Gagal menyimpan departemen. Perubahan dibatalkan.''))],
          on_after = []\<rparr>,
       \<lparr>awaited = [UpsertPatientSortOrder (p_id C) 1, UpsertPatientSortOrder (p_id A) 2,
                UpsertPatientSortOrder (p_id B) 3], on_then = [],
         on_catch = [OnUpdateDepartment (department c), Toast (Error (js ''Gagal menyimpan urutan.''))],
         on_after = []\<rparr>]"
    by (simp add: s1 await_call_def inflight_handleUpdateDepartment)
  let ?s2 = "settle (Suc (length (inflight s))) (promise_all ocs) ?s1"
  have s2: "?s2 = run_actions [OnUpdateDepartment (department c), Toast (Error (js ''Gagal menyimpan urutan.''))]
       (?s1\<lparr>inflight := take (Suc (length (inflight s))) (inflight ?s1)
                          @ drop (Suc (Suc (length (inflight s)))) (inflight ?s1)\<rparr>)"
    by (simp add: settle_def pa infl nth_append Let_def)
  have "departments ?s2 = map (\<lambda>d. if d_id d = d_id (department c) then department c else d)
                            (departments ?s1)"
    by (simp only: s2) (simp add: departments_handleUpdateDepartment)
  also have "\<dots> = departments s"
    unfolding d1 using replace_back [OF ds, of ?upd] by simp
  finally show "departments ?s2 = departments s" .
  show "toasts ?s2 = toasts s @ [Error (js ''Gagal menyimpan urutan.'')]"
    by (simp only: s2) (simp add: toasts_handleUpdateDepartment s1 await_call_def)
qed

theorem reorder_drag_example_witness:
  "handleDragEnd
     [\<lparr>p_id = js ''a'', requirement = [], status = Tindakan, pasienList = [], hasPasien = False,
       namaPasien = [], nomorTelp = [], photos = []\<rparr>,
      \<lparr>p_id = js ''b'', requirement = [], status = Tindakan, pasienList = [], hasPasien = False,
       namaPasien = [], nomorTelp = [], photos = []\<rparr>,
      \<lparr>p_id = js ''c'', requirement = [], status = Tindakan, pasienList = [], hasPasien = False,
       namaPasien = [], nomorTelp = [], photos = []\<rparr>] (js ''c'') (Some (js ''a''))
   = Some
     [\<lparr>p_id = js ''c'', requirement = [], status = Tindakan, pasienList = [], hasPasien = False,
       namaPasien = [], nomorTelp = [], photos = []\<rparr>,
      \<lparr>p_id = js ''a'', requirement = [], status = Tindakan, pasienList = [], hasPasien = False,
       namaPasien = [], nomorTelp = [], photos = []\<rparr>,
      \<lparr>p_id = js ''b'', requirement = [], status = Tindakan, pasienList = [], hasPasien = False,
       namaPasien = [], nomorTelp = [], photos = []\<rparr>]
   \<and> map (map p_id \<circ> patients)
       (departments (settle 1 (promise_all [Resolved, Rejected, Resolved])
         (handleReorderPatients
           \<lparr>department =
              \<lparr>d_id = js ''d1'', d_name = js ''Ortho'',
               patients =
                 [\<lparr>p_id = js ''a'', requirement = [], status = Tindakan, pasienList = [],
                   hasPasien = False, namaPasien = [], nomorTelp = [], photos = []\<rparr>,
                  \<lparr>p_id = js ''b'', requirement = [], status = Tindakan, pasienList = [],
                   hasPasien = False, namaPasien = [], nomorTelp = [], photos = []\<rparr>,
                  \<lparr>p_id = js ''c'', requirement = [], status = Tindakan, pasienList = [],
                   hasPasien = False, namaPasien = [], nomorTelp = [], photos = []\<rparr>],
               hasSubDepartments = False, subDepartments = None\<rparr>,
            formMode = Add, editingPatient = None, targetSubDeptId = None,
            pasienListPatient = None, pasienListSubDeptId = None, photoPatient = None, photoSubDeptId = None, deletingPatientId = None,
            deletingSubDeptId = None, newSubDeptName = []\<rparr>
           [\<lparr>p_id = js ''c'', requirement = [], status = Tindakan, pasienList = [],
             hasPasien = False, namaPasien = [], nomorTelp = [], photos = []\<rparr>,
            \<lparr>p_id = js ''a'', requirement = [], status = Tindakan, pasienList = [],
             hasPasien = False, namaPasien = [], nomorTelp = [], photos = []\<rparr>,
            \<lparr>p_id = js ''b'', requirement = [], status = Tindakan, pasienList = [],
             hasPasien = False, namaPasien = [], nomorTelp = [], photos = []\<rparr>]
           None
           (idle
             [\<lparr>d_id = js ''d1'', d_name = js ''Ortho'',
               patients =
                 [\<lparr>p_id = js ''a'', requirement = [], status = Tindakan, pasienList = [],
                   hasPasien = False, namaPasien = [], nomorTelp = [], photos = []\<rparr>,
                  \<lparr>p_id = js ''b'', requirement = [], status = Tindakan, pasienList = [],
                   hasPasien = False, namaPasien = [], nomorTelp = [], photos = []\<rparr>,
                  \<lparr>p_id = js ''c'', requirement = [], status = Tindakan, pasienList = [],
                   hasPasien = False, namaPasien = [], nomorTelp = [], photos = []\<rparr>],
               hasSubDepartments = False, subDepartments = None\<rparr>] [] []))))
     = [[js ''a'', js ''b'', js ''c'']]"
proof -
  let ?A = "\<lparr>p_id = js ''a'', requirement = [], status = Tindakan, pasienList = [], hasPasien = False,
       namaPasien = [], nomorTelp = [], photos = []\<rparr>"
  let ?B = "\<lparr>p_id = js ''b'', requirement = [], status = Tindakan, pasienList = [], hasPasien = False,
       namaPasien = [], nomorTelp = [], photos = []\<rparr>"
  let ?C = "\<lparr>p_id = js ''c'', requirement = [], status = Tindakan, pasienList = [], hasPasien = False,
       namaPasien = [], nomorTelp = [], photos = []\<rparr>"
  let ?d = "\<lparr>d_id = js ''d1'', d_name = js ''Ortho'', patients = [?A, ?B, ?C],
       hasSubDepartments = False, subDepartments = None\<rparr>"
  let ?c = "\<lparr>department = ?d, formMode = Add, editingPatient = None, targetSubDeptId = None,
       pasienListPatient = None, pasienListSubDeptId = None, photoPatient = None, photoSubDeptId = None, deletingPatientId = None,
       deletingSubDeptId = None, newSubDeptName = []\<rparr>"
  have h1: "p_id ?C \<noteq> p_id ?A" "p_id ?C \<noteq> p_id ?B"
    by (simp_all add: js_def)
  have h2: "patients (department ?c) = [?A, ?B, ?C]" by simp
  have h3: "distinct (map d_id (departments (idle [?d] [] [])))"
    "department ?c \<in> set (departments (idle [?d] [] []))"
    by (simp_all add: idle_def)
  have h4: "Rejected \<in> set [Resolved, Rejected, Resolved]" by simp
  have i0: "Suc (length (inflight (idle [?d] [] []))) = 1" by (simp add: idle_def)
  from reorder_drag_example [OF h1 h2 h3 h4]
  have a: "handleDragEnd [?A, ?B, ?C] (js ''c'') (Some (js ''a'')) = Some [?C, ?A, ?B]"
    and b: "departments (settle (Suc (length (inflight (idle [?d] [] []))))
              (promise_all [Resolved, Rejected, Resolved])
              (handleReorderPatients ?c [?C, ?A, ?B] None (idle [?d] [] [])))
            = departments (idle [?d] [] [])"
    by simp_all
  from b have "map (map p_id \<circ> patients)
       (departments (settle 1 (promise_all [Resolved, Rejected, Resolved])
         (handleReorderPatients ?c [?C, ?A, ?B] None (idle [?d] [] []))))
     = [[js ''a'', js ''b'', js ''c'']]"
    by (simp only: i0) (simp add: idle_def)
  with a show ?thesis by blast
qed

section \<open>Legacy fields\<close>

lemma legacy_synced_syncLegacyFields: "legacy_synced (syncLegacyFields p)"
  by (cases "pasienList p") (simp_all add: legacy_synced_def syncLegacyFields_def)

lemma pasienList_syncLegacyFields: "pasienList (syncLegacyFields p) = pasienList p"
  by (simp add: syncLegacyFields_def)

lemma p_id_syncLegacyFields: "p_id (syncLegacyFields p) = p_id p"
  by (simp add: syncLegacyFields_def)

lemma row_synced_upsertPatient_row:
  "row_synced (upsertPatient_row p departmentId subDepartmentId) (pasienList p)"
  by (cases "pasienList p") (simp_all add: row_synced_def upsertPatient_row_def syncLegacyFields_def Let_def)

lemma replace_patient_hit:
  "q \<in> set (replace_patient upd ps) \<Longrightarrow> p_id q = p_id upd \<Longrightarrow> q = upd"
  by (auto simp: replace_patient_def split: if_splits)

lemma writes_persist_patient_form:
  "row \<in> set (concat (map patient_writes_of (persist_patient_form c upd p sd)))
     \<Longrightarrow> row = upsertPatient_row p (d_id (department c)) sd"
  by (simp add: persist_patient_form_def)

lemma writes_handleSavePatientForm:
  assumes "row \<in> set (concat (map patient_writes_of (handleSavePatientForm_actions c req st now)))"
  shows "\<exists>es. row_synced row es"
  using assms
  by (auto simp: handleSavePatientForm_actions_def Let_def persist_patient_form_def
      split: if_splits option.splits intro!: exI row_synced_upsertPatient_row)

lemma writes_handleSavePasienList:
  assumes "row \<in> set (concat (map patient_writes_of (handleSavePasienList_actions c updatedList)))"
  shows "row_synced row updatedList"
proof -
  from assms obtain plp where
    "row = upsertPatient_row (syncLegacyFields (plp\<lparr>pasienList := updatedList\<rparr>)) (d_id (department c))
             (subDeptId_for_save (department c) (pasienListSubDeptId c))"
    by (auto simp: handleSavePasienList_actions_def Let_def split: option.splits)
  then show ?thesis
    using row_synced_upsertPatient_row [of "syncLegacyFields (plp\<lparr>pasienList := updatedList\<rparr>)"]
    by (simp add: pasienList_syncLegacyFields)
qed

lemma writes_handleStatusChange:
  assumes "row \<in> set (concat (map patient_writes_of (handleStatusChange_actions c patientId st subDeptId)))"
  shows "\<exists>es. row_synced row es"
proof -
  from assms obtain p where
    "row = upsertPatient_row (p\<lparr>status := st\<rparr>) (d_id (department c)) subDeptId"
    by (auto simp: handleStatusChange_actions_def Let_def split: option.splits)
  then show ?thesis using row_synced_upsertPatient_row by blast
qed

text \<open>
  Claim C4. The legacy fields follow the entry list. \<^verbatim>\<open>syncLegacyFields\<close> sets
  \<^verbatim>\<open>namaPasien\<close> and \<^verbatim>\<open>nomorTelp\<close> to those of the first entry (the empty string for an empty
  list) and \<^verbatim>\<open>hasPasien\<close> to whether the list is non-empty, and keeps the list. Whatever
  was added, edited or deleted in the entry dialog, saving its list through
  \<^verbatim>\<open>handleSavePasienList\<close> puts into the department a patient whose legacy fields are
  derived from the saved list, and every patient row written by the card (entry list
  saved, requirement form saved, status changed), as every row \<^verbatim>\<open>upsertPatient\<close> builds,
  carries legacy columns derived from the entry list it carries.
\<close>

theorem legacy_fields_follow_entry_list:
  "legacy_synced (syncLegacyFields p) \<and> pasienList (syncLegacyFields p) = pasienList p
   \<and> (pasienListPatient c = Some plp \<longrightarrow>
        (\<forall>upd rest. handleSavePasienList_actions c (modal_handleSave m) = OnUpdateDepartment upd # rest \<longrightarrow>
           updated_department (department c) (pasienListSubDeptId c)
             (replace_patient (syncLegacyFields (plp\<lparr>pasienList := modal_handleSave m\<rparr>))) = Some upd))
   \<and> (\<forall>q \<in> set (replace_patient (syncLegacyFields (plp\<lparr>pasienList := modal_handleSave m\<rparr>)) ps).
        p_id q = p_id plp \<longrightarrow> legacy_synced q \<and> pasienList q = modal_handleSave m)
   \<and> (\<forall>row \<in> set (concat (map patient_writes_of (handleSavePasienList_actions c (modal_handleSave m)))).
        row_synced row (modal_handleSave m))
   \<and> (\<forall>row \<in> set (concat (map patient_writes_of (handleSavePatientForm_actions c req st now))).
        \<exists>es. row_synced row es)
   \<and> (\<forall>row \<in> set (concat (map patient_writes_of (handleStatusChange_actions c patientId st subDeptId))).
        \<exists>es. row_synced row es)
   \<and> row_synced (upsertPatient_row p departmentId subDepartmentId) (pasienList p)"
proof (intro conjI ballI impI allI)
  show "legacy_synced (syncLegacyFields p)" by (rule legacy_synced_syncLegacyFields)
  show "pasienList (syncLegacyFields p) = pasienList p" by (rule pasienList_syncLegacyFields)
  show "row_synced (upsertPatient_row p departmentId subDepartmentId) (pasienList p)"
    by (rule row_synced_upsertPatient_row)
next
  fix upd rest
  assume "pasienListPatient c = Some plp"
    and "handleSavePasienList_actions c (modal_handleSave m) = OnUpdateDepartment upd # rest"
  then show "updated_department (department c) (pasienListSubDeptId c)
             (replace_patient (syncLegacyFields (plp\<lparr>pasienList := modal_handleSave m\<rparr>))) = Some upd"
    by (auto simp: handleSavePasienList_actions_def Let_def split: option.splits)
next
  fix q
  assume q: "q \<in> set (replace_patient (syncLegacyFields (plp\<lparr>pasienList := modal_handleSave m\<rparr>)) ps)"
    and i: "p_id q = p_id plp"
  from replace_patient_hit [OF q] i
  have "q = syncLegacyFields (plp\<lparr>pasienList := modal_handleSave m\<rparr>)"
    by (simp add: p_id_syncLegacyFields)
  then show "legacy_synced q" "pasienList q = modal_handleSave m"
    by (simp_all add: legacy_synced_syncLegacyFields pasienList_syncLegacyFields)
next
  fix row
  assume "row \<in> set (concat (map patient_writes_of (handleSavePasienList_actions c (modal_handleSave m))))"
  then show "row_synced row (modal_handleSave m)" by (rule writes_handleSavePasienList)
next
  fix row
  assume "row \<in> set (concat (map patient_writes_of (handleSavePatientForm_actions c req st now)))"
  then show "\<exists>es. row_synced row es" by (rule writes_handleSavePatientForm)
next
  fix row
  assume "row \<in> set (concat (map patient_writes_of (handleStatusChange_actions c patientId st subDeptId)))"
  then show "\<exists>es. row_synced row es" by (rule writes_handleStatusChange)
qed

theorem legacy_fields_follow_entry_list_witness:
  "map (\<lambda>q. (hasPasien q, namaPasien q, nomorTelp q))
     (replace_patient
        (syncLegacyFields
           (\<lparr>p_id = js ''p1'', requirement = js ''r'', status = Tindakan, pasienList = [],
             hasPasien = False, namaPasien = [], nomorTelp = [], photos = []\<rparr>
            \<lparr>pasienList := modal_handleSave
               \<lparr>entries = [\<lparr>pe_id = js ''pe-1'', pe_namaPasien = js ''Ann'', pe_nomorTelp = js ''0812''\<rparr>],
                editingId = None, editNama = [], editTelp = [], newNama = [], newTelp = []\<rparr>\<rparr>))
        [\<lparr>p_id = js ''p1'', requirement = js ''r'', status = Tindakan, pasienList = [],
          hasPasien = False, namaPasien = [], nomorTelp = [], photos = []\<rparr>])
   = [(True, js ''Ann'', js ''0812'')]"
  using legacy_fields_follow_entry_list
    [where plp = "\<lparr>p_id = js ''p1'', requirement = js ''r'', status = Tindakan, pasienList = [],
             hasPasien = False, namaPasien = [], nomorTelp = [], photos = []\<rparr>"
       and m = "\<lparr>entries = [\<lparr>pe_id = js ''pe-1'', pe_namaPasien = js ''Ann'', pe_nomorTelp = js ''0812''\<rparr>],
                editingId = None, editNama = [], editTelp = [], newNama = [], newTelp = []\<rparr>"
       and ps = "[\<lparr>p_id = js ''p1'', requirement = js ''r'', status = Tindakan, pasienList = [],
          hasPasien = False, namaPasien = [], nomorTelp = [], photos = []\<rparr>]"]
  by (simp add: replace_patient_def syncLegacyFields_def modal_handleSave_def truthy_def
      legacy_synced_def)

section \<open>Failure of a write\<close>

text \<open>
  Claim C1 asks for exactly one failure notification, and no success notification, when the
  persistence call of a mutation fails. \<^verbatim>\<open>handleAddSubDept\<close> breaks it: its success
  notification stands after the \<^verbatim>\<open>try\<close>/\<^verbatim>\<open>catch\<close>, so when
  \<^verbatim>\<open>upsertSubDepartment\<close> is rejected the rollback and the failure notification are followed
  by the notification that the sub-department was added. The call is the second one in
  flight after those of the state \<open>s\<close>, the first being the department write issued by
  \<^verbatim>\<open>onUpdate\<close>.
\<close>

theorem addSubDept_failure_also_notifies_success:
  assumes "js_trim (newSubDeptName c) \<noteq> []"
  shows "toasts (settle (Suc (length (inflight s))) Rejected (handleAddSubDept c now s))
         = toasts s @
           [Error (js ''Gagal menambah sub-departemen. Perubahan dibatalkan.''),
            Success (js ''Sub-departemen '' @ [0x22] @ js_trim (newSubDeptName c) @ [0x22]
                       @ js '' ditambahkan'')]"
proof -
  let ?newSub = "\<lparr>sd_id = js ''sub-'' @ now, sd_name = js_trim (newSubDeptName c), sd_patients = []\<rparr>"
  let ?upd = "(department c)\<lparr>subDepartments := Some (subs_or_empty (department c) @ [?newSub])\<rparr>"
  let ?ca = "[OnUpdateDepartment (department c),
              Toast (Error (js ''Gagal menambah sub-departemen. Perubahan dibatalkan.''))]"
  let ?af = "[Toast (Success (js ''Sub-departemen '' @ [0x22] @ js_trim (newSubDeptName c) @ [0x22]
                       @ js '' ditambahkan''))]"
  let ?s1 = "handleAddSubDept c now s"
  have s1: "?s1 = await_call [UpsertSubDepartment (upsertSubDepartment_row ?newSub (d_id (department c)))]
                    [] ?ca ?af (handleUpdateDepartment ?upd s)"
    using assms by (simp add: handleAddSubDept_def handleAddSubDept_actions_def Let_def)
  have infl: "inflight ?s1 = inflight (handleUpdateDepartment ?upd s) @
      [\<lparr>awaited = [UpsertSubDepartment (upsertSubDepartment_row ?newSub (d_id (department c)))],
        on_then = [], on_catch = ?ca, on_after = ?af\<rparr>]"
    by (simp add: s1 await_call_def)
  have len: "length (inflight (handleUpdateDepartment ?upd s)) = Suc (length (inflight s))"
    by (simp add: inflight_handleUpdateDepartment)
  have t1: "toasts ?s1 = toasts s"
    by (simp add: s1 await_call_def toasts_handleUpdateDepartment)
  have "settle (Suc (length (inflight s))) Rejected ?s1
        = run_actions (?ca @ ?af)
            (?s1\<lparr>inflight := take (Suc (length (inflight s))) (inflight ?s1)
                               @ drop (Suc (Suc (length (inflight s)))) (inflight ?s1)\<rparr>)"
    by (simp add: settle_def infl len Let_def nth_append)
  then show ?thesis
    by (simp add: toasts_handleUpdateDepartment t1)
qed

theorem addSubDept_failure_also_notifies_success_witness:
  "toasts (settle 1 Rejected
     (handleAddSubDept
        \<lparr>department = \<lparr>d_id = js ''d1'', d_name = js ''Ortho'', patients = [],
                         hasSubDepartments = True, subDepartments = Some []\<rparr>,
         formMode = Add, editingPatient = None, targetSubDeptId = None,
         pasienListPatient = None, pasienListSubDeptId = None, photoPatient = None, photoSubDeptId = None, deletingPatientId = None,
         deletingSubDeptId = None, newSubDeptName = js ''Bedah''\<rparr>
        (js ''17'')
        (idle [\<lparr>d_id = js ''d1'', d_name = js ''Ortho'', patients = [],
                hasSubDepartments = True, subDepartments = Some []\<rparr>] [] [])))
   = [Error (js ''Gagal menambah sub-departemen. Perubahan dibatalkan.''),
      Success (js ''Sub-departemen '' @ [0x22] @ js ''Bedah'' @ [0x22] @ js '' ditambahkan'')]"
proof -
  let ?d = "\<lparr>d_id = js ''d1'', d_name = js ''Ortho'', patients = [],
             hasSubDepartments = True, subDepartments = Some []\<rparr>"
  let ?c = "\<lparr>department = ?d, formMode = Add, editingPatient = None, targetSubDeptId = None,
         pasienListPatient = None, pasienListSubDeptId = None, photoPatient = None, photoSubDeptId = None, deletingPatientId = None,
         deletingSubDeptId = None, newSubDeptName = js ''Bedah''\<rparr>"
  have tr: "js_trim (js ''Bedah'') = js ''Bedah''"
    by (simp add: js_def js_trim_def js_is_whitespace_def)
  have h: "js_trim (newSubDeptName ?c) \<noteq> []"
    by (simp add: js_def js_trim_def js_is_whitespace_def)
  have i0: "Suc (length (inflight (idle [?d] [] []))) = 1" "toasts (idle [?d] [] []) = []"
    by (simp_all add: idle_def)
  from addSubDept_failure_also_notifies_success [OF h, of "idle [?d] [] []" "js ''17''"]
  show ?thesis
    by (simp only: i0 append_Nil) (simp add: tr)
qed

section \<open>Success of a write\<close>


subsection \<open>What a continuation on the success path does\<close>









subsection \<open>Every call in flight has a quiet continuation\<close>

lemma all_quiet_update [simp]:
  "all_quiet (s\<lparr>departments := ds\<rparr>) = all_quiet s"
  "all_quiet (s\<lparr>appointments := as\<rparr>) = all_quiet s"
  "all_quiet (s\<lparr>weeklySlots := ws\<rparr>) = all_quiet s"
  "all_quiet (s\<lparr>toasts := ts\<rparr>) = all_quiet s"
  "all_quiet (s\<lparr>unhandled := n\<rparr>) = all_quiet s"
  by (simp_all add: all_quiet_def)


































section \<open>Patients of a department with sub-departments\<close>

subsection \<open>Loading\<close>

lemma map_rows_Inr:
  "map_rows f xs = Inr ys \<Longrightarrow> list_all2 (\<lambda>x y. f x = Inr y) xs ys"
proof (induction xs arbitrary: ys)
  case Nil
  then show ?case by simp
next
  case (Cons x xs)
  then show ?case by (auto split: sum.splits)
qed

lemma list_all2_carry:
  "list_all2 P xs ys \<Longrightarrow> list_all Q xs \<Longrightarrow> (\<And>x y. P x y \<Longrightarrow> Q x \<Longrightarrow> R y)
     \<Longrightarrow> list_all R ys"
  by (induction rule: list_all2_induct) auto

lemma toSubDepartment_id:
  "toSubDepartment photo_rows patient_rows s = Inr sd \<Longrightarrow> sd_id sd = sr_id s"
  by (auto simp: toSubDepartment_def split: sum.splits)

lemma sub_only_toDepartment:
  assumes "toDepartment sub_rows patient_rows photo_rows d = Inr dept"
    and "has_sub_departments d \<longrightarrow>
           list_all (\<lambda>p. pr_department_id p = dr_id d \<longrightarrow> truthy (pr_sub_department_id p)) patient_rows
           \<and> list_all (\<lambda>s. sr_department_id s = dr_id d \<longrightarrow> sr_id s \<noteq> []) sub_rows"
  shows "sub_only dept"
proof (cases "has_sub_departments d")
  case False
  with assms(1) show ?thesis
    by (auto simp: toDepartment_def sub_only_def Let_def split: sum.splits)
next
  case True
  let ?direct = "filter (\<lambda>p. pr_department_id p = dr_id d \<and> \<not> truthy (pr_sub_department_id p)) patient_rows"
  let ?deptSubs = "filter (\<lambda>s. sr_department_id s = dr_id d) sub_rows"
  from True assms(2) have "?direct = []"
    by (auto simp: list_all_iff filter_empty_conv)
  moreover from assms(1) obtain ps sds where
    ps: "map_rows (toPatient photo_rows) ?direct = Inr ps"
    and sds: "map_rows (toSubDepartment photo_rows patient_rows) ?deptSubs = Inr sds"
    and dept: "dept = \<lparr>d_id = dr_id d, d_name = dr_name d, patients = ps,
                       hasSubDepartments = has_sub_departments d, subDepartments = Some sds\<rparr>"
    by (auto simp: toDepartment_def Let_def split: sum.splits)
  ultimately have e: "ps = []" by simp
  from True assms(2) have "list_all (\<lambda>s. sr_id s \<noteq> []) ?deptSubs"
    by (auto simp: list_all_iff)
  then have "list_all (\<lambda>sd. sd_id sd \<noteq> []) sds"
    using toSubDepartment_id by (intro list_all2_carry [OF map_rows_Inr [OF sds]]) auto
  with e dept show ?thesis by (simp add: sub_only_def subs_or_empty_def)
qed

lemma sub_only_fetchDepartments:
  assumes "fetchDepartments depts subs patient_rows photo_rows = Inr ds"
    and "rows_as_written (data_or_empty depts) (data_or_empty subs) (data_or_empty patient_rows)"
  shows "list_all sub_only ds"
proof (cases "error depts \<noteq> None \<or> data depts = None")
  case True
  with assms(1) show ?thesis by (simp add: fetchDepartments_def)
next
  case False
  with assms(1) have "map_rows (toDepartment (data_or_empty subs) (data_or_empty patient_rows)
                         (data_or_empty photo_rows)) (data_or_empty depts) = Inr ds"
    by (auto simp: fetchDepartments_def split: if_splits)
  from map_rows_Inr [OF this]
  have l: "list_all2 (\<lambda>d dept. toDepartment (data_or_empty subs) (data_or_empty patient_rows)
                         (data_or_empty photo_rows) d = Inr dept) (data_or_empty depts) ds" .
  from assms(2) have q: "list_all (\<lambda>d. has_sub_departments d \<longrightarrow>
           list_all (\<lambda>p. pr_department_id p = dr_id d \<longrightarrow> truthy (pr_sub_department_id p))
             (data_or_empty patient_rows)
           \<and> list_all (\<lambda>s. sr_department_id s = dr_id d \<longrightarrow> sr_id s \<noteq> []) (data_or_empty subs))
         (data_or_empty depts)"
    by (simp add: rows_as_written_def)
  show ?thesis
    by (rule list_all2_carry [OF l q]) (rule sub_only_toDepartment)
qed

subsection \<open>The handlers\<close>

lemma sub_only_updated_department:
  assumes "sub_only dept" and "addressed dept subDeptId"
    and "updated_department dept subDeptId f = Some u"
  shows "sub_only u"
  using assms
  by (auto simp: sub_only_def addressed_def updated_department_def in_subDepartment_def
      subs_or_empty_def list_all_iff split: if_splits option.splits)

text \<open>What the card renders for a department in this state is addressed.\<close>

lemma rendered_addressed:
  "sub_only dept \<Longrightarrow> rendered dept subDeptId \<Longrightarrow> addressed dept subDeptId"
  by (auto simp: sub_only_def rendered_def addressed_def truthy_def list_all_iff
      split: if_splits)

lemma sub_only_persist_patient_form:
  "sub_only upd \<Longrightarrow> sub_only (department c) \<Longrightarrow>
     list_all sub_only_action (persist_patient_form c upd p sd)"
  by (simp add: persist_patient_form_def)

lemma sub_only_handleSavePatientForm:
  assumes "sub_only (department c)" and "addressed (department c) (targetSubDeptId c)"
  shows "list_all sub_only_action (handleSavePatientForm_actions c req st now)"
  using assms(1)
  by (auto simp: handleSavePatientForm_actions_def Let_def sub_only_persist_patient_form
      dest: sub_only_updated_department [OF assms] split: option.splits)

lemma sub_only_handleSavePasienList:
  assumes "sub_only (department c)" and "addressed (department c) (pasienListSubDeptId c)"
  shows "list_all sub_only_action (handleSavePasienList_actions c updatedList)"
  using assms(1)
  by (auto simp: handleSavePasienList_actions_def Let_def
      dest: sub_only_updated_department [OF assms] split: option.splits)

lemma sub_only_handleStatusChange:
  assumes "sub_only (department c)" and "addressed (department c) subDeptId"
  shows "list_all sub_only_action (handleStatusChange_actions c patientId st subDeptId)"
  using assms(1)
  by (auto simp: handleStatusChange_actions_def Let_def
      dest: sub_only_updated_department [OF assms] split: option.splits)

lemma sub_only_confirmDeletePatient:
  assumes "sub_only (department c)" and "addressed (department c) (deletingSubDeptId c)"
  shows "list_all sub_only_action (confirmDeletePatient_actions c)"
  using assms(1)
  by (auto simp: confirmDeletePatient_actions_def Let_def
      dest: sub_only_updated_department [OF assms] split: option.splits)

lemma sub_only_handleReorderPatients:
  assumes "sub_only (department c)" and "addressed (department c) subDeptId"
  shows "list_all sub_only_action (handleReorderPatients_actions c newList subDeptId)"
  using assms(1)
  by (auto simp: handleReorderPatients_actions_def Let_def
      dest: sub_only_updated_department [OF assms] split: option.splits)

lemma sub_only_handleAddSubDept:
  assumes "sub_only (department c)"
  shows "list_all sub_only_action (handleAddSubDept_actions c now)"
  using assms
  by (auto simp: handleAddSubDept_actions_def Let_def sub_only_def subs_or_empty_def js_def
      split: option.splits)

lemma sub_only_awaits:
  "list_all sub_only_action k \<Longrightarrow> list_all sub_only_action ca \<Longrightarrow>
     list_all sub_only_action (awaits reqs k ca)"
  by (induction reqs) simp_all

lemma sub_only_handleAddPhoto:
  assumes "sub_only (department c)" and "addressed (department c) (photoSubDeptId c)"
  shows "list_all sub_only_action (handleAddPhoto_actions c f now getPublicUrl uploadError inserted)"
  by (auto simp: handleAddPhoto_actions_def updatePhotosInState_def
      intro!: sub_only_awaits dest: sub_only_updated_department [OF assms]
      split: option.splits prod.splits upload_result.splits)

lemma sub_only_handleRemovePhoto:
  assumes "sub_only (department c)" and "addressed (department c) (photoSubDeptId c)"
  shows "list_all sub_only_action (handleRemovePhoto_actions c index)"
  by (auto simp: handleRemovePhoto_actions_def updatePhotosInState_def Let_def
      intro!: sub_only_awaits dest: sub_only_updated_department [OF assms]
      split: option.splits)

lemma sub_only_handleSubmit:
  "list_all sub_only_action (handleSubmit_actions appts editingAppt formData now)"
  by (auto simp: handleSubmit_actions_def Let_def split: option.splits)

lemma sub_only_confirmDelete:
  "list_all sub_only_action (confirmDelete_actions appts deletingId)"
  by (auto simp: confirmDelete_actions_def Let_def)

lemma sub_only_toggleChecklist:
  "list_all sub_only_action (toggleChecklist_actions appts ident)"
  by (auto simp: toggleChecklist_actions_def Let_def split: option.splits)

lemma sub_only_is_success: "list_all is_success acts \<Longrightarrow> list_all sub_only_action acts"
proof (induction acts)
  case Nil
  show ?case by simp
next
  case (Cons a acts)
  then show ?case by (cases a) simp_all
qed

lemma sub_only_updateSlot:
  assumes "list_all is_success on_ok"
  shows "list_all sub_only_action (updateSlot_actions slots slotId day v on_ok)"
  using sub_only_is_success [OF assms]
  by (simp add: updateSlot_actions_def Let_def split: option.splits)

lemma sub_only_weekly_handleSave:
  "list_all sub_only_action (weekly_handleSave_actions slots depts pl)"
  by (auto simp: weekly_handleSave_actions_def sub_only_updateSlot split: option.splits)

lemma sub_only_handleClear:
  "list_all sub_only_action (handleClear_actions slots pl)"
  by (auto simp: handleClear_actions_def sub_only_updateSlot)

subsection \<open>The store and the calls in flight\<close>

lemma sub_only_ui_update [simp]:
  "sub_only_ui (s\<lparr>appointments := as\<rparr>) = sub_only_ui s"
  "sub_only_ui (s\<lparr>weeklySlots := ws\<rparr>) = sub_only_ui s"
  "sub_only_ui (s\<lparr>toasts := ts\<rparr>) = sub_only_ui s"
  "sub_only_ui (s\<lparr>unhandled := n\<rparr>) = sub_only_ui s"
  by (simp_all add: sub_only_ui_def)

lemma sub_only_ui_departments:
  "sub_only_ui s \<Longrightarrow> list_all sub_only ds \<Longrightarrow> sub_only_ui (s\<lparr>departments := ds\<rparr>)"
  by (simp add: sub_only_ui_def)

lemma sub_only_ui_await_call:
  "sub_only_ui s \<Longrightarrow> sub_only_action (Await reqs th ca af) \<Longrightarrow>
     sub_only_ui (await_call reqs th ca af s)"
  by (simp add: sub_only_ui_def await_call_def sub_only_pending_def)

lemma sub_only_ui_handleUpdateDepartment:
  assumes "sub_only_ui s" and "sub_only upd"
  shows "sub_only_ui (handleUpdateDepartment upd s)"
proof -
  from assms(1) have ds: "list_all sub_only (departments s)" by (simp add: sub_only_ui_def)
  with assms(2) have "list_all sub_only (map (\<lambda>d. if d_id d = d_id upd then upd else d) (departments s))"
    by (auto simp: list_all_iff)
  with assms(1) have "sub_only_ui (s\<lparr>departments := map (\<lambda>d. if d_id d = d_id upd then upd else d) (departments s)\<rparr>)"
    by (rule sub_only_ui_departments)
  then show ?thesis
    unfolding handleUpdateDepartment_def Let_def
    by (rule sub_only_ui_await_call) (simp add: ds)
qed

lemma sub_only_ui_run_actions:
  "sub_only_ui s \<Longrightarrow> list_all sub_only_action acts \<Longrightarrow> sub_only_ui (run_actions acts s)"
proof (induction acts s rule: run_actions.induct)
  case (2 ds rest s)
  then show ?case by (simp add: sub_only_ui_departments)
next
  case (3 d rest s)
  then show ?case by (simp add: sub_only_ui_handleUpdateDepartment)
next
  case (8 reqs th ca af rest s)
  then show ?case by (simp add: sub_only_ui_await_call del: sub_only_action.simps)
qed simp_all

lemma sub_only_ui_start:
  assumes "sub_only_ui s" and "offered s f"
  shows "sub_only_ui (start f s)"
proof -
  from assms(1) have ds: "list_all sub_only (departments s)" by (simp add: sub_only_ui_def)
  then have member: "\<And>c. department c \<in> set (departments s) \<Longrightarrow> sub_only (department c)"
    by (simp add: list_all_iff)
  show ?thesis
  proof (cases f)
    case (AddDepartment name hasSub now)
    have "list_all sub_only (departments s @
            [\<lparr>d_id = js ''dept-'' @ now, d_name = name, patients = [], hasSubDepartments = hasSub,
              subDepartments = (if hasSub then Some [] else None)\<rparr>])"
      using ds by (simp add: sub_only_def subs_or_empty_def)
    with assms(1) show ?thesis
      unfolding AddDepartment start.simps handleAddDepartment_def Let_def
      by (intro sub_only_ui_await_call sub_only_ui_departments) (simp_all add: ds)
  next
    case (DeleteDepartmentOf ident)
    have "list_all sub_only (filter (\<lambda>d. d_id d \<noteq> ident) (departments s))"
      using ds by (simp add: list_all_iff)
    with assms(1) show ?thesis
      unfolding DeleteDepartmentOf start.simps handleDeleteDepartment_def Let_def
      by (intro sub_only_ui_await_call sub_only_ui_departments) (simp_all add: ds)
  next
    case (SavePatientForm c req st now)
    with assms(2) have m: "department c \<in> set (departments s)"
      and a: "addressed (department c) (targetSubDeptId c)" by simp_all
    from sub_only_ui_run_actions [OF assms(1) sub_only_handleSavePatientForm [OF member [OF m] a]]
    show ?thesis by (simp add: SavePatientForm handleSavePatientForm_def)
  next
    case (SavePasienList c updatedList)
    with assms(2) have m: "department c \<in> set (departments s)"
      and a: "addressed (department c) (pasienListSubDeptId c)" by simp_all
    from sub_only_ui_run_actions [OF assms(1) sub_only_handleSavePasienList [OF member [OF m] a]]
    show ?thesis by (simp add: SavePasienList handleSavePasienList_def)
  next
    case (StatusChange c patientId st subDeptId)
    with assms(2) have m: "department c \<in> set (departments s)"
      and a: "addressed (department c) (subDeptId)" by simp_all
    from sub_only_ui_run_actions [OF assms(1) sub_only_handleStatusChange [OF member [OF m] a]]
    show ?thesis by (simp add: StatusChange handleStatusChange_def)
  next
    case (ConfirmDeletePatient c)
    with assms(2) have m: "department c \<in> set (departments s)"
      and a: "addressed (department c) (deletingSubDeptId c)" by simp_all
    from sub_only_ui_run_actions [OF assms(1) sub_only_confirmDeletePatient [OF member [OF m] a]]
    show ?thesis by (simp add: ConfirmDeletePatient confirmDeletePatient_def)
  next
    case (AddSubDept c now)
    with assms(2) have m: "department c \<in> set (departments s)" by simp
    from sub_only_ui_run_actions [OF assms(1) sub_only_handleAddSubDept [OF member [OF m]]]
    show ?thesis by (simp add: AddSubDept handleAddSubDept_def)
  next
    case (ReorderPatients c newList subDeptId)
    with assms(2) have m: "department c \<in> set (departments s)"
      and a: "addressed (department c) (subDeptId)" by simp_all
    from sub_only_ui_run_actions [OF assms(1) sub_only_handleReorderPatients [OF member [OF m] a]]
    show ?thesis by (simp add: ReorderPatients handleReorderPatients_def)
  next
    case (AddPhoto c f now getPublicUrl uploadError inserted)
    with assms(2) have m: "department c \<in> set (departments s)"
      and a: "addressed (department c) (photoSubDeptId c)" by simp_all
    from sub_only_ui_run_actions [OF assms(1) sub_only_handleAddPhoto [OF member [OF m] a]]
    show ?thesis by (simp add: AddPhoto handleAddPhoto_def)
  next
    case (RemovePhoto c index)
    with assms(2) have m: "department c \<in> set (departments s)"
      and a: "addressed (department c) (photoSubDeptId c)" by simp_all
    from sub_only_ui_run_actions [OF assms(1) sub_only_handleRemovePhoto [OF member [OF m] a]]
    show ?thesis by (simp add: RemovePhoto handleRemovePhoto_def)
  next
    case (SubmitAppointment editingAppt formData now)
    with assms(1) show ?thesis
      by (simp add: handleSubmit_def sub_only_ui_run_actions sub_only_handleSubmit)
  next
    case (ConfirmDeleteAppointment deletingId)
    with assms(1) show ?thesis
      by (simp add: confirmDelete_def sub_only_ui_run_actions sub_only_confirmDelete)
  next
    case (ToggleChecklist ident)
    with assms(1) show ?thesis
      by (simp add: toggleChecklist_def sub_only_ui_run_actions sub_only_toggleChecklist)
  next
    case (SaveSlot pl)
    with assms(1) show ?thesis
      by (simp add: weekly_handleSave_def sub_only_ui_run_actions sub_only_weekly_handleSave)
  next
    case (ClearSlot pl)
    with assms(1) show ?thesis
      by (simp add: handleClear_def sub_only_ui_run_actions sub_only_handleClear)
  qed
qed

lemma list_all_without: "list_all P xs \<Longrightarrow> list_all P (take i xs @ drop (Suc i) xs)"
  by (auto simp: list_all_iff dest: in_set_takeD in_set_dropD)

lemma sub_only_ui_settle:
  assumes "sub_only_ui s"
  shows "sub_only_ui (settle i oc s)"
proof (cases "i < length (inflight s)")
  case False
  with assms show ?thesis by (simp add: settle_def)
next
  case True
  let ?p = "inflight s ! i"
  let ?s' = "s\<lparr>inflight := take i (inflight s) @ drop (Suc i) (inflight s)\<rparr>"
  from assms True have p: "sub_only_pending ?p"
    unfolding sub_only_ui_def list_all_iff using nth_mem by blast
  from assms have s': "sub_only_ui ?s'"
    unfolding sub_only_ui_def using list_all_without [of sub_only_pending "inflight s" i] by simp
  from p have "list_all sub_only_action (on_then ?p @ on_after ?p)"
    "list_all sub_only_action (on_catch ?p @ on_after ?p)"
    by (simp_all add: sub_only_pending_def)
  with s' True show ?thesis
    by (cases oc) (simp_all add: settle_def Let_def sub_only_ui_run_actions)
qed

lemma sub_only_ui_run:
  "sub_only_ui s \<Longrightarrow> offered_run s evs \<Longrightarrow> sub_only_ui (run evs s)"
proof (induction evs arbitrary: s)
  case Nil
  then show ?case by (simp add: run_def)
next
  case (Cons ev evs)
  show ?case
  proof (cases ev)
    case (Start f)
    with Cons.prems have o: "offered s f" and r: "offered_run (start f s) evs" by simp_all
    from Cons.IH [OF sub_only_ui_start [OF Cons.prems(1) o] r] Start
    show ?thesis by (simp add: run_def)
  next
    case (Settle i oc)
    with Cons.prems have r: "offered_run (settle i oc s) evs" by simp
    from Cons.IH [OF sub_only_ui_settle [OF Cons.prems(1)] r] Settle
    show ?thesis by (simp add: run_def)
  qed
qed

text \<open>
  The rows the card writes for a department with sub-departments are of the kind the
  loading supposes: a patient row names a sub-department. (The id of a new
  sub-department starts with \<^verbatim>\<open>sub-\<close>.)
\<close>

lemma written_rows_name_sub_department:
  assumes "hasSubDepartments (department c)"
  shows "addressed (department c) (targetSubDeptId c) \<longrightarrow>
           list_all (\<lambda>row. pr_department_id row = d_id (department c) \<and> truthy (pr_sub_department_id row))
             (concat (map patient_writes_of (handleSavePatientForm_actions c req st now)))"
    and "addressed (department c) (pasienListSubDeptId c) \<longrightarrow>
           list_all (\<lambda>row. pr_department_id row = d_id (department c) \<and> truthy (pr_sub_department_id row))
             (concat (map patient_writes_of (handleSavePasienList_actions c updatedList)))"
    and "addressed (department c) subDeptId \<longrightarrow>
           list_all (\<lambda>row. pr_department_id row = d_id (department c) \<and> truthy (pr_sub_department_id row))
             (concat (map patient_writes_of (handleStatusChange_actions c patientId st subDeptId)))"
  using assms
  by (auto simp: handleSavePatientForm_actions_def handleSavePasienList_actions_def
      handleStatusChange_actions_def persist_patient_form_def
      subDeptId_for_save_def upsertPatient_row_def addressed_def
      Let_def split: option.splits)

text \<open>
  Claim C9. The departments are loaded from rows as the handlers write them, and then the
  user acts through the interface and calls settle, in any order. In every state that
  results, a department with \<^verbatim>\<open>hasSubDepartments\<close> has no patient of its own: its patients,
  those the card works with, are the patients of its sub-departments. So its direct list and
  the lists of its sub-departments are never populated together, after loading (the
  interleaving with no event) or after any mutation, be it optimistic, applied on success
  (the photos) or a rollback of the card or of the dashboard.
\<close>

theorem sub_departments_hold_the_patients:
  assumes "fetchDepartments depts subs patient_rows photo_rows = Inr ds"
    and "rows_as_written (data_or_empty depts) (data_or_empty subs) (data_or_empty patient_rows)"
    and "offered_run (idle ds as ws) evs"
  shows "list_all (\<lambda>d. hasSubDepartments d \<longrightarrow>
                     patients d = []
                     \<and> allPatients d = concat (map sd_patients (subs_or_empty d)))
           (departments (run evs (idle ds as ws)))"
proof -
  from assms(1,2) have "list_all sub_only ds" by (rule sub_only_fetchDepartments)
  then have "sub_only_ui (idle ds as ws)" by (simp add: sub_only_ui_def idle_def)
  from sub_only_ui_run [OF this assms(3)]
  have "list_all sub_only (departments (run evs (idle ds as ws)))" by (simp add: sub_only_ui_def)
  then show ?thesis by (auto simp: list_all_iff sub_only_def allPatients_def)
qed

theorem sub_departments_hold_the_patients_witness:
  "fetchDepartments
     \<lparr>data = Some [\<lparr>dr_id = js ''d1'', dr_name = js ''Ortho'', has_sub_departments = True\<rparr>], error = None\<rparr>
     \<lparr>data = Some [\<lparr>sr_id = js ''s1'', sr_department_id = js ''d1'', sr_name = js ''A''\<rparr>], error = None\<rparr>
     \<lparr>data = Some
        [\<lparr>pr_id = js ''p2'', pr_department_id = js ''d1'', pr_sub_department_id = Some (js ''s1''),
          pr_requirement = js ''y'', pr_status = Tindakan, has_pasien = False, nama_pasien = [],
          nomor_telp = [], pasien_list = None\<rparr>], error = None\<rparr>
     (\<lparr>data = Some [], error = None\<rparr> :: photo_row response)
   = Inr [\<lparr>d_id = js ''d1'', d_name = js ''Ortho'', patients = [], hasSubDepartments = True,
          subDepartments = Some [\<lparr>sd_id = js ''s1'', sd_name = js ''A'',
            sd_patients = [\<lparr>p_id = js ''p2'', requirement = js ''y'', status = Tindakan, pasienList = [],
                  hasPasien = False, namaPasien = [], nomorTelp = [], photos = []\<rparr>]\<rparr>]\<rparr>]
   \<and> map (\<lambda>d. (hasSubDepartments d, length (patients d), length (allPatients d)))
       (departments (run
          [Start (SavePatientForm
        \<lparr>department = \<lparr>d_id = js ''d1'', d_name = js ''Ortho'', patients = [], hasSubDepartments = True,
          subDepartments = Some [\<lparr>sd_id = js ''s1'', sd_name = js ''A'',
            sd_patients = [\<lparr>p_id = js ''p2'', requirement = js ''y'', status = Tindakan, pasienList = [],
                  hasPasien = False, namaPasien = [], nomorTelp = [], photos = []\<rparr>]\<rparr>]\<rparr>,
         formMode = Add, editingPatient = None, targetSubDeptId = Some (js ''s1''),
         pasienListPatient = None, pasienListSubDeptId = None, photoPatient = None,
         photoSubDeptId = None, deletingPatientId = None, deletingSubDeptId = None,
         newSubDeptName = []\<rparr>
        (js ''x'') Tindakan (js ''17'')),
      Settle 0 Resolved, Settle 1 Resolved]
          (idle [\<lparr>d_id = js ''d1'', d_name = js ''Ortho'', patients = [], hasSubDepartments = True,
          subDepartments = Some [\<lparr>sd_id = js ''s1'', sd_name = js ''A'',
            sd_patients = [\<lparr>p_id = js ''p2'', requirement = js ''y'', status = Tindakan, pasienList = [],
                  hasPasien = False, namaPasien = [], nomorTelp = [], photos = []\<rparr>]\<rparr>]\<rparr>] [] [])))
     = [(True, 0, 2)]"
proof -
  define depts where "depts = \<lparr>data = Some [\<lparr>dr_id = js ''d1'', dr_name = js ''Ortho'', has_sub_departments = True\<rparr>], error = None\<rparr>"
  define subs where "subs = \<lparr>data = Some [\<lparr>sr_id = js ''s1'', sr_department_id = js ''d1'', sr_name = js ''A''\<rparr>], error = None\<rparr>"
  define patient_rows where "patient_rows = \<lparr>data = Some
        [\<lparr>pr_id = js ''p2'', pr_department_id = js ''d1'', pr_sub_department_id = Some (js ''s1''),
          pr_requirement = js ''y'', pr_status = Tindakan, has_pasien = False, nama_pasien = [],
          nomor_telp = [], pasien_list = None\<rparr>], error = None\<rparr>"
  define photo_rows where "photo_rows = (\<lparr>data = Some [], error = None\<rparr> :: photo_row response)"
  define dept where "dept = \<lparr>d_id = js ''d1'', d_name = js ''Ortho'', patients = [], hasSubDepartments = True,
          subDepartments = Some [\<lparr>sd_id = js ''s1'', sd_name = js ''A'',
            sd_patients = [\<lparr>p_id = js ''p2'', requirement = js ''y'', status = Tindakan, pasienList = [],
                  hasPasien = False, namaPasien = [], nomorTelp = [], photos = []\<rparr>]\<rparr>]\<rparr>"
  define evs where "evs = [Start (SavePatientForm
        \<lparr>department = \<lparr>d_id = js ''d1'', d_name = js ''Ortho'', patients = [], hasSubDepartments = True,
          subDepartments = Some [\<lparr>sd_id = js ''s1'', sd_name = js ''A'',
            sd_patients = [\<lparr>p_id = js ''p2'', requirement = js ''y'', status = Tindakan, pasienList = [],
                  hasPasien = False, namaPasien = [], nomorTelp = [], photos = []\<rparr>]\<rparr>]\<rparr>,
         formMode = Add, editingPatient = None, targetSubDeptId = Some (js ''s1''),
         pasienListPatient = None, pasienListSubDeptId = None, photoPatient = None,
         photoSubDeptId = None, deletingPatientId = None, deletingSubDeptId = None,
         newSubDeptName = []\<rparr>
        (js ''x'') Tindakan (js ''17'')),
      Settle 0 Resolved, Settle 1 Resolved]"
  have f: "fetchDepartments depts subs patient_rows photo_rows = Inr [dept]"
    by (simp add: depts_def subs_def patient_rows_def photo_rows_def dept_def fetchDepartments_def
        data_or_empty_def toDepartment_def toSubDepartment_def toPatient_def parse_pasien_list_def
        truthy_def photosByPatient_def js_def)
  have r: "rows_as_written (data_or_empty depts) (data_or_empty subs) (data_or_empty patient_rows)"
    by (simp add: depts_def subs_def patient_rows_def rows_as_written_def data_or_empty_def
        truthy_def js_def)
  have o: "offered_run (idle [dept] [] []) evs"
    by (simp add: evs_def dept_def idle_def addressed_def truthy_def js_def)
  note inv = sub_departments_hold_the_patients [OF f r o]
  have e: "map (\<lambda>d. (hasSubDepartments d, length (concat (map sd_patients (subs_or_empty d)))))
             (departments (run evs (idle [dept] [] []))) = [(True, 2)]"
    by (simp add: evs_def dept_def run_def idle_def handleSavePatientForm_def
        handleSavePatientForm_actions_def persist_patient_form_def updated_department_def
        in_subDepartment_def subDeptId_for_save_def truthy_def settle_def await_call_def
        handleUpdateDepartment_def subs_or_empty_def or_empty_def Let_def js_def)
  then obtain x where x: "departments (run evs (idle [dept] [] [])) = [x]"
    by (auto simp: map_eq_Cons_conv)
  from e x have h: "hasSubDepartments x"
    and n: "length (concat (map sd_patients (subs_or_empty x))) = 2" by simp_all
  from inv x h have "patients x = []"
    and "allPatients x = concat (map sd_patients (subs_or_empty x))" by simp_all
  with h n x have "map (\<lambda>d. (hasSubDepartments d, length (patients d), length (allPatients d)))
       (departments (run evs (idle [dept] [] []))) = [(True, 0, 2)]"
    by simp
  with f show ?thesis
    by (simp only: depts_def subs_def patient_rows_def photo_rows_def dept_def evs_def)
qed

text \<open>
  The supposition on the rows is needed: \<^verbatim>\<open>fetchDepartments\<close> puts every patient row
  without a sub-department id on its department, whatever the department's flag. No
  handler writes such a row for a department with sub-departments.
\<close>

lemma fetchDepartments_row_without_sub_department:
  "fetchDepartments
     \<lparr>data = Some [\<lparr>dr_id = js ''d1'', dr_name = js ''Ortho'', has_sub_departments = True\<rparr>], error = None\<rparr>
     \<lparr>data = Some [\<lparr>sr_id = js ''s1'', sr_department_id = js ''d1'', sr_name = js ''A''\<rparr>], error = None\<rparr>
     \<lparr>data = Some
        [\<lparr>pr_id = js ''p1'', pr_department_id = js ''d1'', pr_sub_department_id = None,
          pr_requirement = js ''x'', pr_status = Selesai, has_pasien = False, nama_pasien = [],
          nomor_telp = [], pasien_list = None\<rparr>,
         \<lparr>pr_id = js ''p2'', pr_department_id = js ''d1'', pr_sub_department_id = Some (js ''s1''),
          pr_requirement = js ''y'', pr_status = Tindakan, has_pasien = False, nama_pasien = [],
          nomor_telp = [], pasien_list = None\<rparr>], error = None\<rparr>
     \<lparr>data = Some [], error = None\<rparr>
   = Inr [\<lparr>d_id = js ''d1'', d_name = js ''Ortho'',
           patients = [\<lparr>p_id = js ''p1'', requirement = js ''x'', status = Selesai, pasienList = [],
                        hasPasien = False, namaPasien = [], nomorTelp = [], photos = []\<rparr>],
           hasSubDepartments = True,
           subDepartments = Some [\<lparr>sd_id = js ''s1'', sd_name = js ''A'',
             sd_patients = [\<lparr>p_id = js ''p2'', requirement = js ''y'', status = Tindakan,
                              pasienList = [], hasPasien = False, namaPasien = [], nomorTelp = [],
                              photos = []\<rparr>]\<rparr>]\<rparr>]"
  by (simp add: fetchDepartments_def data_or_empty_def toDepartment_def toSubDepartment_def
      toPatient_def parse_pasien_list_def truthy_def photosByPatient_def js_def)

end
